theory Spec2Isabelle
  imports Main "HOL-Library.Sublist" "HOL-Library.AList"
begin

section \<open>Python values and string primitives\<close>

text \<open>
  The client library is written in Python. Text is modelled as \<^typ>\<open>string\<close>; a byte
  payload (\<open>bytes\<close>) is modelled as a list of characters as well, and the conversions
  between the two (\<open>str.encode\<close>, \<open>bytes.decode\<close>) are functions of the environment.
\<close>

type_synonym bytes = string

text \<open>Arguments whose Python type is not fixed by the code (a format tag, a job id).\<close>

datatype pyval = PyNone | PyStr string | PyInt int

text \<open>
  An exception, named by the class Python raises. \<open>ValueError\<close> carries its message: the
  module's own errors and the one of \<open>int()\<close> are plain \<open>ValueError\<close>s, told apart by the
  message only. The other constructors stand for the exception a library call or a
  subscript raises, whose message the module never looks at: \<open>PandasError\<close> for what the
  \<open>DataFrame\<close> constructor raises, \<open>KeystoneError\<close> for what the authentication module
  raises. In Python some of these classes are subclasses of \<open>ValueError\<close>: \<open>is_ValueError\<close>
  says whether a handler for \<open>ValueError\<close> catches the exception, with \<open>None\<close> where the
  class is the library's choice.
\<close>

datatype error =
    ValueError string
  | KeyError string
  | TypeError
  | IndexError
  | UnicodeDecodeError
  | JSONDecodeError
  | PandasError
  | ParserError
  | AttributeError
  | KeystoneError

fun is_ValueError :: "error \<Rightarrow> bool option" where
  "is_ValueError (ValueError msg) = Some True"
| "is_ValueError UnicodeDecodeError = Some True"
| "is_ValueError JSONDecodeError = Some True"
| "is_ValueError ParserError = Some True"
| "is_ValueError PandasError = None"
| "is_ValueError KeystoneError = None"
| "is_ValueError e = Some False"

text \<open>\<open>sep.join(args)\<close>\<close>

fun join :: "string \<Rightarrow> string list \<Rightarrow> string" where
  "join sep [] = []"
| "join sep [x] = x"
| "join sep (x # y # ys) = x @ sep @ join sep (y # ys)"

text \<open>\<open>str(n)\<close> for an integer: its decimal numeral, with a minus sign when negative.\<close>

definition digit_char :: "nat \<Rightarrow> char" where
  "digit_char d = ''0123456789'' ! (d mod 10)"

function str_nat :: "nat \<Rightarrow> string" where
  "str_nat n = (if n < 10 then [digit_char n] else str_nat (n div 10) @ [digit_char (n mod 10)])"
  by pat_completeness auto
termination
  by (relation "measure (\<lambda>n. n)") auto

declare str_nat.simps [simp del]

definition str_int :: "int \<Rightarrow> string" where
  "str_int i = (if i < 0 then CHR ''-'' # str_nat (nat (- i)) else str_nat (nat i))"

fun str :: "pyval \<Rightarrow> string" where
  "str PyNone = ''None''"
| "str (PyStr s) = s"
| "str (PyInt i) = str_int i"

text \<open>
  \<open>s.replace(old, new)\<close>: every non-overlapping occurrence of \<open>old\<close>, scanning from the
  left, is replaced; an empty \<open>old\<close> matches before every character and at the end.
\<close>

fun strip_prefix :: "string \<Rightarrow> string \<Rightarrow> string option" where
  "strip_prefix [] s = Some s"
| "strip_prefix (a # as) [] = None"
| "strip_prefix (a # as) (c # s) = (if a = c then strip_prefix as s else None)"

lemma strip_prefix_length:
  "strip_prefix old s = Some rest \<Longrightarrow> length s = length old + length rest"
  by (induction old s rule: strip_prefix.induct) (auto split: if_splits)

function replace :: "string \<Rightarrow> string \<Rightarrow> string \<Rightarrow> string" where
  "replace s old new =
     (if old = [] then new @ concat (map (\<lambda>c. c # new) s)
      else (case s of
              [] \<Rightarrow> []
            | c # cs \<Rightarrow>
                (case strip_prefix old s of
                   Some rest \<Rightarrow> new @ replace rest old new
                 | None \<Rightarrow> c # replace cs old new)))"
  by pat_completeness auto
termination
  by (relation "measure (\<lambda>(s, old, new). length s)")
     (auto dest!: strip_prefix_length)

declare replace.simps [simp del]

section \<open>constants.py\<close>

definition join_str :: "string list \<Rightarrow> string \<Rightarrow> string" where
  "join_str args sep = join sep args"

definition DCONST_JOB_ID :: string where "DCONST_JOB_ID = ''<job_id>''"
definition DCONST_TABLENAME_ID :: string where "DCONST_TABLENAME_ID = ''<tablename>''"
definition DCONST_HTTP_CODE_ID :: string where "DCONST_HTTP_CODE_ID = ''<code>''"
definition DCONST_CONTEXT_ID :: string where "DCONST_CONTEXT_ID = ''<context>''"
definition DCONST_TASKNAME_ID :: string where "DCONST_TASKNAME_ID = ''<taskname>''"

definition EXCEPT_LOGIN_ERROR :: string where
  "EXCEPT_LOGIN_ERROR = ''User token is not defined. First log into SciServer.''"

definition EXCEPT_SCHEMA_ERROR :: string where
  "EXCEPT_SCHEMA_ERROR = ''Error when getting schema name.''"

definition EXCEPT_GET_TABLE_ERROR :: string where
  "EXCEPT_GET_TABLE_ERROR =
     join_str [''Error when getting table description'',
               ''from database context '' @ DCONST_CONTEXT_ID @ ''.'' @ [CHR 0x0A]] '' ''"

definition EXCEPT_ILLEGAL_FORMAT_ERROR :: string where
  "EXCEPT_ILLEGAL_FORMAT_ERROR =
     join_str [''Error when executing query. Illegal format parameter specification: ''] '' ''"

definition EXCEPT_EXECUTE_QUERY_ERROR :: string where
  "EXCEPT_EXECUTE_QUERY_ERROR = ''Error when executing query.''"

definition EXCEPT_SUMBIT_JOB_ERROR :: string where
  "EXCEPT_SUMBIT_JOB_ERROR = ''Error when submitting a job.''"

definition EXCEPT_GET_JOB_STATUS_ERROR :: string where
  "EXCEPT_GET_JOB_STATUS_ERROR =
     join_str [''Error when getting the status of job '' @ DCONST_JOB_ID @ ''.'' @ [CHR 0x0A]] '' ''"

definition EXCEPT_CANCEL_JOB_ERROR :: string where
  "EXCEPT_CANCEL_JOB_ERROR = ''Error when canceling job '' @ DCONST_JOB_ID @ ''.'' @ [CHR 0x0A]"

definition EXCEPT_UPLOAD_CSV_ERROR :: string where
  "EXCEPT_UPLOAD_CSV_ERROR =
     join_str [''Error when uploading CSV data into'',
               ''CasJobs table '' @ DCONST_TABLENAME_ID @ ''.'' @ [CHR 0x0A]] '' ''"

definition EXCEPT_HTTP_ERROR :: string where
  "EXCEPT_HTTP_ERROR =
     join_str [''Http Response from CasJobs API'',
               ''returned status code '' @ DCONST_HTTP_CODE_ID @ '':'' @ [CHR 0x0A]] '' ''"

definition TASKNAMES_GETTABLES :: string where "TASKNAMES_GETTABLES = ''getTables''"
definition TASKNAMES_GETSCHEMANAME :: string where "TASKNAMES_GETSCHEMANAME = ''getSchemaName''"
definition TASKNAMES_EXECUTEQUERY :: string where "TASKNAMES_EXECUTEQUERY = ''executeQuery''"
definition TASKNAMES_SUBMITJOB :: string where "TASKNAMES_SUBMITJOB = ''submitJob''"
definition TASKNAMES_GETJOBSTATUS :: string where "TASKNAMES_GETJOBSTATUS = ''getJobStatus''"
definition TASKNAMES_CANCELJOB :: string where "TASKNAMES_CANCELJOB = ''cancelJob''"
definition TASKNAMES_WRITEFITSFILEFROMQUERY :: string where
  "TASKNAMES_WRITEFITSFILEFROMQUERY = ''writeFitsFileFromQuery''"
definition TASKNAMES_GETPANDASDATAFRAMEFROMQUERY :: string where
  "TASKNAMES_GETPANDASDATAFRAMEFROMQUERY = ''getPandasDataFrameFromQuery''"
definition TASKNAMES_GETNUMPYARRAYFROMQUERY :: string where
  "TASKNAMES_GETNUMPYARRAYFROMQUERY = ''getNumpyArrayFromQuery''"
definition TASKNAMES_UPLOADPANDASDATAFRAMETOTABLE :: string where
  "TASKNAMES_UPLOADPANDASDATAFRAMETOTABLE = ''uploadPandasDataFrameToTable''"
definition TASKNAMES_UPLOADCSVDATATOTABLE :: string where
  "TASKNAMES_UPLOADCSVDATATOTABLE = ''uploadCSVDataToTable''"

definition CASJOBSCONST_SCISCRIPT_PYTHON :: string where
  "CASJOBSCONST_SCISCRIPT_PYTHON = ''SciScript-Python.CasJobs.''"
definition CASJOBSCONST_SCISCRIPT_PYTHON_COMPUTE :: string where
  "CASJOBSCONST_SCISCRIPT_PYTHON_COMPUTE = ''Compute.'' @ CASJOBSCONST_SCISCRIPT_PYTHON"
definition CASJOBSCONST_X_AUTH_TOKEN :: string where "CASJOBSCONST_X_AUTH_TOKEN = ''X-Auth-Token''"
definition CASJOBSCONST_CONTENT_TYPE :: string where "CASJOBSCONST_CONTENT_TYPE = ''Content-Type''"
definition CASJOBSCONST_ACCEPT :: string where "CASJOBSCONST_ACCEPT = ''Accept''"
definition CASJOBSCONST_CONTENT_JSON :: string where "CASJOBSCONST_CONTENT_JSON = ''application/json''"
definition CASJOBSCONST_KEYSTONE_USER_ID :: string where
  "CASJOBSCONST_KEYSTONE_USER_ID = ''<keystone_user_id>''"
definition CASJOBSCONST_MYDB :: string where "CASJOBSCONST_MYDB = ''MyDB''"
definition CASJOBSCONST_QUERY :: string where "CASJOBSCONST_QUERY = ''Query''"
definition CASJOBSCONST_TASKNAME :: string where "CASJOBSCONST_TASKNAME = ''TaskName''"

definition URLCONST_CONTEXTS :: string where "URLCONST_CONTEXTS = ''contexts''"
definition URLCONST_TABLES :: string where "URLCONST_TABLES = ''Tables''"
definition URLCONST_TASKNAME :: string where "URLCONST_TASKNAME = CASJOBSCONST_TASKNAME"
definition URLCONST_USERS :: string where "URLCONST_USERS = ''users''"
definition URLCONST_QUERY :: string where "URLCONST_QUERY = ''query''"
definition URLCONST_JOBS :: string where "URLCONST_JOBS = ''jobs''"


section \<open>HTTP messages, JSON values and the environment\<close>

datatype json =
    JNull
  | JBool bool
  | JNum int
  | JStr string
  | JArr "json list"
  | JObj "(string \<times> json) list"

datatype http_method = GET | POST | PUT | DELETE

text \<open>
  The body of a request: none, the bytes \<open>orjson.dumps\<close> makes of a dictionary of strings
  (kept as the dictionary), or bytes given by the caller.
\<close>

datatype payload = NoData | Dumps "(string \<times> string) list" | RawBytes bytes

text \<open>
  A request as the module hands it to the HTTP library. Its headers are the ones the
  module passes (the \<open>headers\<close> argument of the call, or the headers of the shared
  session); the defaults the library adds on its own, such as its \<open>Accept\<close> and
  \<open>User-Agent\<close>, are not part of the model.
\<close>

record request =
  req_method :: http_method
  req_url :: string
  req_headers :: "(string \<times> string) list"
  req_data :: payload

record response =
  status_code :: int
  content :: bytes

text \<open>
  A pandas table as far as this module looks into it: the name of its index
  (\<open>dataFrame.index.name\<close>), the index labels, the column names and the rows of cells.
\<close>

record dataframe =
  index_name :: pyval
  index_labels :: "string list"
  columns :: "string list"
  rows :: "string list list"

text \<open>
  Everything the module observes of the world outside it. \<open>None\<close> in a library function
  stands for the exception that library raises. The server answers a request knowing how
  many requests were sent before it, so that a job's status can change between polls.
\<close>

record env =
  getToken :: "string option"
  getKeystoneUserWithToken :: "string \<Rightarrow> string option"
  isSciServerComputeEnvironment :: bool
  CasJobsRESTUri :: string
  server :: "nat \<Rightarrow> request \<Rightarrow> response"
  decode :: "bytes \<Rightarrow> string option"
  encode :: "string \<Rightarrow> bytes"
  loads :: "string \<Rightarrow> json option"
  int_of_str :: "string \<Rightarrow> int option"
  repr :: "json \<Rightarrow> string"
  pandas_DataFrame :: "json \<Rightarrow> json \<Rightarrow> dataframe option"
  read_csv :: "string \<Rightarrow> dataframe option"
  as_matrix :: "dataframe \<Rightarrow> string list list option"

text \<open>What a call does besides returning: requests, sleeps, prints, file writes, in order.\<close>

datatype event =
    Req request
  | Sleep int
  | Print string
  | FileWrite string bytes

text \<open>The class \<open>Task\<close> and the module's mutable state: the global \<open>task\<close>, and the events so far.\<close>

record Task =
  name :: "string option"

record state =
  task :: Task
  trace :: "event list"

fun requests :: "event list \<Rightarrow> request list" where
  "requests [] = []"
| "requests (Req r # es) = r # requests es"
| "requests (e # es) = requests es"

subsection \<open>Exceptions and state\<close>

type_synonym 'a io = "state \<Rightarrow> (error + 'a) \<times> state"

definition returnM :: "'a \<Rightarrow> 'a io" where
  "returnM x = (\<lambda>s. (Inr x, s))"

definition raiseM :: "error \<Rightarrow> 'a io" where
  "raiseM e = (\<lambda>s. (Inl e, s))"

definition bindM :: "'a io \<Rightarrow> ('a \<Rightarrow> 'b io) \<Rightarrow> 'b io" where
  "bindM m f = (\<lambda>s. case m s of (Inl e, s') \<Rightarrow> (Inl e, s') | (Inr x, s') \<Rightarrow> f x s')"

definition bindE :: "error + 'a \<Rightarrow> ('a \<Rightarrow> error + 'b) \<Rightarrow> error + 'b" where
  "bindE m f = (case m of Inl e \<Rightarrow> Inl e | Inr x \<Rightarrow> f x)"

definition liftE :: "error + 'a \<Rightarrow> 'a io" where
  "liftE r = (\<lambda>s. (r, s))"

definition emit :: "event \<Rightarrow> unit io" where
  "emit e = (\<lambda>s. (Inr (), s\<lparr>trace := trace s @ [e]\<rparr>))"

text \<open>
  One HTTP exchange: the request is recorded and the server's answer returned. The server
  always answers: a failure of the transport (no connection, no response) is not part of
  the model, and neither is the \<open>stream\<close> flag of a request, which only changes how the
  body is read.
\<close>

definition http :: "env \<Rightarrow> request \<Rightarrow> response io" where
  "http env r = (\<lambda>s. (Inr (server env (length (requests (trace s))) r),
                        s\<lparr>trace := trace s @ [Req r]\<rparr>))"

fun collect :: "(error + 'a) list \<Rightarrow> error + 'a list" where
  "collect [] = Inr []"
| "collect (Inl e # rs) = Inl e"
| "collect (Inr x # rs) = (case collect rs of Inl e \<Rightarrow> Inl e | Inr xs \<Rightarrow> Inr (x # xs))"

subsection \<open>Python operations on decoded JSON\<close>

text \<open>\<open>j[k]\<close> for a string key.\<close>

fun getitem :: "json \<Rightarrow> string \<Rightarrow> error + json" where
  "getitem (JObj kvs) k = (case map_of kvs k of None \<Rightarrow> Inl (KeyError k) | Some v \<Rightarrow> Inr v)"
| "getitem j k = Inl TypeError"

text \<open>\<open>j[0]\<close>\<close>

fun getitem0 :: "json \<Rightarrow> error + json" where
  "getitem0 (JArr xs) = (case xs of [] \<Rightarrow> Inl IndexError | x # _ \<Rightarrow> Inr x)"
| "getitem0 (JStr s) = (case s of [] \<Rightarrow> Inl IndexError | c # _ \<Rightarrow> Inr (JStr [c]))"
| "getitem0 (JObj kvs) = Inl (KeyError ''0'')"
| "getitem0 j = Inl TypeError"

text \<open>\<open>len(j)\<close>\<close>

fun len :: "json \<Rightarrow> error + nat" where
  "len (JArr xs) = Inr (length xs)"
| "len (JStr s) = Inr (length s)"
| "len (JObj kvs) = Inr (length kvs)"
| "len j = Inl TypeError"

text \<open>The items a \<open>for\<close> loop over \<open>j\<close> visits.\<close>

fun iter :: "json \<Rightarrow> error + json list" where
  "iter (JArr xs) = Inr xs"
| "iter (JStr s) = Inr (map (\<lambda>c. JStr [c]) s)"
| "iter (JObj kvs) = Inr (map (\<lambda>kv. JStr (fst kv)) kvs)"
| "iter j = Inl TypeError"

text \<open>\<open>int(j)\<close>; for a string that is no integer literal it raises a \<open>ValueError\<close>.\<close>

fun int_of_json :: "env \<Rightarrow> json \<Rightarrow> error + int" where
  "int_of_json env (JNum i) = Inr i"
| "int_of_json env (JBool b) = Inr (if b then 1 else 0)"
| "int_of_json env (JStr s) =
     (case int_of_str env s of
        None \<Rightarrow> Inl (ValueError (''invalid literal for int() with base 10: '' @ repr env (JStr s)))
      | Some i \<Rightarrow> Inr i)"
| "int_of_json env j = Inl TypeError"

text \<open>\<open>str(j)\<close>\<close>

fun str_json :: "env \<Rightarrow> json \<Rightarrow> string" where
  "str_json env JNull = ''None''"
| "str_json env (JBool b) = (if b then ''True'' else ''False'')"
| "str_json env (JNum i) = str_int i"
| "str_json env (JStr s) = s"
| "str_json env j = repr env j"

section \<open>utils.py\<close>

definition token :: "env \<Rightarrow> error + string" where
  "token env =
     (case getToken env of
        None \<Rightarrow> Inl (ValueError EXCEPT_LOGIN_ERROR)
      | Some t \<Rightarrow> if t = [] then Inl (ValueError EXCEPT_LOGIN_ERROR) else Inr t)"

definition get_taskname :: "env \<Rightarrow> string \<Rightarrow> string" where
  "get_taskname env task_id =
     (if isSciServerComputeEnvironment env
      then CASJOBSCONST_SCISCRIPT_PYTHON_COMPUTE @ task_id
      else CASJOBSCONST_SCISCRIPT_PYTHON @ task_id)"

definition taskname_url :: "env \<Rightarrow> string \<Rightarrow> string" where
  "taskname_url env taskname = ''?'' @ URLCONST_TASKNAME @ ''='' @ get_taskname env taskname"

definition format_to_accept_header :: "pyval \<Rightarrow> error + string" where
  "format_to_accept_header accept_format =
     (if accept_format \<in> set [PyStr ''pandas'', PyStr ''json'', PyStr ''dict'']
      then Inr ''application/json+array''
      else if accept_format \<in> set [PyStr ''csv'', PyStr ''readable'', PyStr ''StringIO'']
      then Inr ''text/plain''
      else if accept_format \<in> set [PyStr ''fits'', PyStr ''BytesIO'']
      then Inr ''application/fits''
      else Inl (ValueError (EXCEPT_ILLEGAL_FORMAT_ERROR @ str accept_format)))"

definition get_headers :: "string \<Rightarrow> pyval \<Rightarrow> error + (string \<times> string) list" where
  "get_headers tok accept_format =
     (let headers = [(CASJOBSCONST_X_AUTH_TOKEN, tok),
                     (CASJOBSCONST_CONTENT_TYPE, CASJOBSCONST_CONTENT_JSON)]
      in if accept_format \<noteq> PyNone
         then bindE (format_to_accept_header accept_format)
                (\<lambda>a. Inr (AList.update CASJOBSCONST_ACCEPT a headers))
         else Inr headers)"

definition format_data :: "string \<Rightarrow> string \<Rightarrow> payload" where
  "format_data sql task_name =
     Dumps [(CASJOBSCONST_QUERY, sql), (CASJOBSCONST_TASKNAME, task_name)]"

text \<open>\<open>response.content.decode()\<close>\<close>

definition content_decode :: "env \<Rightarrow> response \<Rightarrow> error + string" where
  "content_decode env resp =
     (case decode env (content resp) of None \<Rightarrow> Inl UnicodeDecodeError | Some t \<Rightarrow> Inr t)"

text \<open>\<open>orjson.loads(text)\<close>\<close>

definition orjson_loads :: "env \<Rightarrow> string \<Rightarrow> error + json" where
  "orjson_loads env t = (case loads env t of None \<Rightarrow> Inl JSONDecodeError | Some j \<Rightarrow> Inr j)"

definition response_to_json :: "env \<Rightarrow> response \<Rightarrow> error + json" where
  "response_to_json env resp = bindE (content_decode env resp) (orjson_loads env)"

definition validate_response_status :: "env \<Rightarrow> response \<Rightarrow> string \<Rightarrow> error + unit" where
  "validate_response_status env resp on_error =
     (if status_code resp \<noteq> 200
      then bindE (content_decode env resp)
             (\<lambda>body. Inl (ValueError
                (join_str [on_error,
                           replace EXCEPT_HTTP_ERROR DCONST_HTTP_CODE_ID (str_int (status_code resp)),
                           body] '' '')))
      else Inr ())"

definition response_get :: "env \<Rightarrow> string \<Rightarrow> string \<Rightarrow> string \<Rightarrow> json io" where
  "response_get env u tok on_error =
     bindM (liftE (get_headers tok PyNone)) (\<lambda>hs.
     bindM (http env \<lparr>req_method = GET, req_url = u, req_headers = hs, req_data = NoData\<rparr>)
       (\<lambda>get_response.
     bindM (liftE (validate_response_status env get_response on_error)) (\<lambda>_.
     liftE (response_to_json env get_response))))"

text \<open>What \<open>__parse_post\<close> hands back, by requested format.\<close>

datatype parsed =
    StringIO string
  | Frame dataframe
  | Frames "dataframe list"
  | Text string
  | Dict json
  | BytesIO bytes

text \<open>\<open>pandas.DataFrame(result["Data"], columns=result["Columns"])\<close>\<close>

definition frame_of_result :: "env \<Rightarrow> json \<Rightarrow> error + dataframe" where
  "frame_of_result env result =
     bindE (getitem result ''Data'') (\<lambda>d.
     bindE (getitem result ''Columns'') (\<lambda>c.
       case pandas_DataFrame env d c of None \<Rightarrow> Inl PandasError | Some df \<Rightarrow> Inr df))"

definition parse_post :: "env \<Rightarrow> response \<Rightarrow> pyval \<Rightarrow> error + parsed" where
  "parse_post env resp format =
     (if format \<in> set [PyStr ''readable'', PyStr ''StringIO'']
      then bindE (content_decode env resp) (\<lambda>t. Inr (StringIO t))
      else if format = PyStr ''pandas''
      then bindE (response_to_json env resp) (\<lambda>r.
           bindE (getitem r ''Result'') (\<lambda>res.
           bindE (len res) (\<lambda>n.
             if n > 1
             then bindE (iter res) (\<lambda>results.
                  bindE (collect (map (frame_of_result env) results)) (\<lambda>dfs. Inr (Frames dfs)))
             else bindE (getitem0 res) (\<lambda>r0.
                  bindE (frame_of_result env r0) (\<lambda>df. Inr (Frame df))))))
      else if format \<in> set [PyStr ''csv'', PyStr ''json'']
      then bindE (content_decode env resp) (\<lambda>t. Inr (Text t))
      else if format = PyStr ''dict''
      then bindE (response_to_json env resp) (\<lambda>j. Inr (Dict j))
      else if format \<in> set [PyStr ''fits'', PyStr ''BytesIO'']
      then Inr (BytesIO (content resp))
      else Inl (ValueError (EXCEPT_ILLEGAL_FORMAT_ERROR @ str format)))"

text \<open>The asynchronous session reads \<open>response.status\<close> and \<open>await response.text()\<close>.\<close>

definition async_validate_response_status :: "env \<Rightarrow> response \<Rightarrow> error + unit" where
  "async_validate_response_status env resp =
     (if status_code resp \<noteq> 200
      then bindE (content_decode env resp)
             (\<lambda>body. Inl (ValueError
                (join_str [EXCEPT_EXECUTE_QUERY_ERROR,
                           replace EXCEPT_HTTP_ERROR DCONST_HTTP_CODE_ID (str_int (status_code resp)),
                           body] '' '')))
      else Inr ())"

text \<open>One entry of a task's output: only the columns and the data of a result set.\<close>

definition columns_data :: "json \<Rightarrow> error + json" where
  "columns_data r =
     bindE (getitem r ''Columns'') (\<lambda>c.
     bindE (getitem r ''Data'') (\<lambda>d.
       Inr (JObj [(''Columns'', c), (''Data'', d)])))"

text \<open>
  \<open>__make_post_request\<close> in two halves: the request a task sends, with the headers of the
  shared session, and what the task makes of the answer.
\<close>

definition make_post_request_send ::
  "string \<Rightarrow> (string \<times> string) list \<Rightarrow> string \<Rightarrow> string \<Rightarrow> request" where
  "make_post_request_send u hs d task_name =
     \<lparr>req_method = POST, req_url = u, req_headers = hs, req_data = format_data d task_name\<rparr>"

definition make_post_request_recv :: "env \<Rightarrow> response \<Rightarrow> error + json" where
  "make_post_request_recv env resp =
     bindE (async_validate_response_status env resp) (\<lambda>_.
     bindE (response_to_json env resp) (\<lambda>response_json.
     bindE (getitem response_json ''Result'') (\<lambda>res.
     bindE (iter res) (\<lambda>items.
     bindE (collect (map columns_data items)) (\<lambda>output. Inr (JArr output))))))"

fun send_all :: "env \<Rightarrow> request list \<Rightarrow> response list io" where
  "send_all env [] = returnM []"
| "send_all env (r # rs) =
     bindM (http env r) (\<lambda>resp. bindM (send_all env rs) (\<lambda>resps. returnM (resp # resps)))"

text \<open>
  \<open>asyncio.gather\<close> over one task per query: every task sends its request, in the order
  of the queries, and the results come back in that order; an exception of a task is
  raised to the caller (here the one of the earliest failing query). The session's
  \<open>base_url\<close> and its connector are left out: the tasks post to the absolute URL.
\<close>

definition async_post_request ::
  "env \<Rightarrow> string \<Rightarrow> string list \<Rightarrow> (string \<times> string) list \<Rightarrow> string \<Rightarrow> json list io" where
  "async_post_request env u datas hs task_name =
     bindM (send_all env (map (\<lambda>d. make_post_request_send u hs d task_name) datas)) (\<lambda>resps.
     liftE (collect (map (make_post_request_recv env) resps)))"

definition URL_DICT :: "env \<Rightarrow> string \<rightharpoonup> string" where
  "URL_DICT env = map_of
     [(TASKNAMES_GETSCHEMANAME,
         join_str [CasJobsRESTUri env @ ''/'' @ URLCONST_USERS @ ''/'',
                   CASJOBSCONST_KEYSTONE_USER_ID,
                   taskname_url env TASKNAMES_GETSCHEMANAME] []),
      (TASKNAMES_GETTABLES,
         join_str [CasJobsRESTUri env @ ''/'' @ URLCONST_CONTEXTS @ ''/'' @ DCONST_CONTEXT_ID,
                   ''/'' @ URLCONST_TABLES @ taskname_url env TASKNAMES_GETTABLES] []),
      (TASKNAMES_EXECUTEQUERY,
         join_str [CasJobsRESTUri env @ ''/'' @ URLCONST_CONTEXTS @ ''/'' @ DCONST_CONTEXT_ID,
                   ''/'' @ URLCONST_QUERY @ DCONST_TASKNAME_ID] []),
      (TASKNAMES_SUBMITJOB,
         join_str [CasJobsRESTUri env @ ''/'' @ URLCONST_CONTEXTS @ ''/'' @ DCONST_CONTEXT_ID,
                   ''/'' @ URLCONST_JOBS @ taskname_url env TASKNAMES_SUBMITJOB] []),
      (TASKNAMES_GETJOBSTATUS,
         join_str [CasJobsRESTUri env @ ''/'' @ URLCONST_JOBS,
                   ''/'' @ DCONST_JOB_ID @ taskname_url env TASKNAMES_GETJOBSTATUS] []),
      (TASKNAMES_CANCELJOB,
         join_str [CasJobsRESTUri env @ ''/'' @ URLCONST_JOBS,
                   ''/'' @ DCONST_JOB_ID @ taskname_url env TASKNAMES_CANCELJOB] []),
      (TASKNAMES_UPLOADCSVDATATOTABLE,
         join_str [CasJobsRESTUri env @ ''/'' @ URLCONST_CONTEXTS @ ''/'' @ DCONST_CONTEXT_ID,
                   ''/'' @ URLCONST_TABLES @ ''/'' @ DCONST_TABLENAME_ID @ DCONST_TASKNAME_ID] [])]"

text \<open>\<open>URL_DICT[key]\<close>\<close>

definition url_dict_get :: "env \<Rightarrow> string \<Rightarrow> error + string" where
  "url_dict_get env k = (case URL_DICT env k of None \<Rightarrow> Inl (KeyError k) | Some u \<Rightarrow> Inr u)"

section \<open>CasJobs.py\<close>

text \<open>\<open>task.name = v\<close>\<close>

definition set_task_name :: "string option \<Rightarrow> unit io" where
  "set_task_name v = (\<lambda>s. (Inr (), s\<lparr>task := (task s)\<lparr>name := v\<rparr>\<rparr>))"

text \<open>
  The first statement of \<open>executeQuery\<close> and of \<open>uploadCSVDataToTable\<close>: a task name that
  was set is used and reset; otherwise the operation's own name, prefixed, is used.
\<close>

definition take_task_name :: "env \<Rightarrow> string \<Rightarrow> string io" where
  "take_task_name env operation =
     (\<lambda>s. case name (task s) of
            Some taskName \<Rightarrow> (Inr taskName, s\<lparr>task := (task s)\<lparr>name := None\<rparr>\<rparr>)
          | None \<Rightarrow> (Inr (get_taskname env operation), s))"

definition getSchemaName :: "env \<Rightarrow> string io" where
  "getSchemaName env =
     bindM (liftE (token env)) (\<lambda>tok.
     bindM (liftE (url_dict_get env TASKNAMES_GETSCHEMANAME)) (\<lambda>u.
     bindM (liftE (case getKeystoneUserWithToken env tok of
                     None \<Rightarrow> Inl KeystoneError | Some uid \<Rightarrow> Inr uid)) (\<lambda>uid.
     bindM (response_get env (replace u CASJOBSCONST_KEYSTONE_USER_ID uid) tok EXCEPT_SCHEMA_ERROR)
       (\<lambda>j.
     bindM (liftE (getitem j ''WebServicesId'')) (\<lambda>w.
     returnM (''wsid_'' @ str_json env w))))))"

definition getTables :: "env \<Rightarrow> string \<Rightarrow> json io" where
  "getTables env context =
     bindM (liftE (url_dict_get env TASKNAMES_GETTABLES)) (\<lambda>u.
     bindM (liftE (token env)) (\<lambda>tok.
     response_get env (replace u DCONST_CONTEXT_ID context) tok
       (replace EXCEPT_GET_TABLE_ERROR DCONST_CONTEXT_ID context)))"

definition executeQuery :: "env \<Rightarrow> string \<Rightarrow> string \<Rightarrow> pyval \<Rightarrow> parsed io" where
  "executeQuery env sql context format =
     bindM (take_task_name env TASKNAMES_EXECUTEQUERY) (\<lambda>taskName.
     bindM (liftE (url_dict_get env TASKNAMES_EXECUTEQUERY)) (\<lambda>u.
     bindM (liftE (token env)) (\<lambda>tok.
     bindM (liftE (get_headers tok format)) (\<lambda>hs.
     bindM (http env \<lparr>req_method = POST,
                      req_url = replace (replace u DCONST_CONTEXT_ID context)
                                  DCONST_TASKNAME_ID (taskname_url env taskName),
                      req_headers = hs,
                      req_data = format_data sql taskName\<rparr>) (\<lambda>postResponse.
     bindM (liftE (validate_response_status env postResponse EXCEPT_EXECUTE_QUERY_ERROR)) (\<lambda>_.
     liftE (parse_post env postResponse format)))))))"

text \<open>
  \<open>sql\<close> of \<open>executeQueryAsync\<close> is one query or a list of queries. The check for an
  IPython kernel and \<open>nest_asyncio.apply()\<close>, which only prepare the event loop, are
  left out.
\<close>

datatype sql_arg = Query string | Queries "string list"

datatype async_result = Responses "json list" | Combined dataframe

text \<open>\<open>for response in responses: r += response["Result"][0]["Data"]\<close>\<close>

fun extend_rows :: "json list \<Rightarrow> json list \<Rightarrow> error + json list" where
  "extend_rows r [] = Inr r"
| "extend_rows r (resp # rest) =
     bindE (getitem resp ''Result'') (\<lambda>a.
     bindE (getitem0 a) (\<lambda>b.
     bindE (getitem b ''Data'') (\<lambda>d.
     bindE (iter d) (\<lambda>items. extend_rows (r @ items) rest))))"

text \<open>\<open>responses[0]["Result"][0]["Columns"]\<close>\<close>

definition first_columns :: "json list \<Rightarrow> error + json" where
  "first_columns responses =
     (case responses of
        [] \<Rightarrow> Inl IndexError
      | r0 # _ \<Rightarrow> bindE (getitem r0 ''Result'') (\<lambda>a. bindE (getitem0 a) (\<lambda>b. getitem b ''Columns'')))"

definition executeQueryAsync :: "env \<Rightarrow> sql_arg \<Rightarrow> string \<Rightarrow> pyval \<Rightarrow> async_result io" where
  "executeQueryAsync env sql context format =
     (let sqls = (case sql of Query q \<Rightarrow> [q] | Queries qs \<Rightarrow> qs) in
      bindM (liftE (token env)) (\<lambda>tok.
      bindM (liftE (get_headers tok (PyStr ''json''))) (\<lambda>hs.
      bindM (async_post_request env (CasJobsRESTUri env @ ''/contexts/'' @ context @ ''/query'')
               sqls hs (get_taskname env TASKNAMES_EXECUTEQUERY)) (\<lambda>responses.
      if format \<noteq> PyNone
      then bindM (liftE (extend_rows [] responses)) (\<lambda>r.
           bindM (liftE (first_columns responses)) (\<lambda>cols.
           liftE (case pandas_DataFrame env (JArr r) cols of
                    None \<Rightarrow> Inl PandasError | Some df \<Rightarrow> Inr (Combined df))))
      else returnM (Responses responses)))))"

definition submitJob :: "env \<Rightarrow> string \<Rightarrow> string \<Rightarrow> int io" where
  "submitJob env sql context =
     bindM (liftE (url_dict_get env TASKNAMES_SUBMITJOB)) (\<lambda>u.
     bindM (liftE (token env)) (\<lambda>tok.
     bindM (liftE (get_headers tok (PyStr ''readable''))) (\<lambda>hs.
     bindM (http env \<lparr>req_method = PUT,
                      req_url = replace u DCONST_CONTEXT_ID context,
                      req_headers = hs,
                      req_data = format_data sql (get_taskname env TASKNAMES_SUBMITJOB)\<rparr>)
       (\<lambda>putResponse.
     bindM (liftE (validate_response_status env putResponse EXCEPT_SUMBIT_JOB_ERROR)) (\<lambda>_.
     bindM (liftE (content_decode env putResponse)) (\<lambda>t.
     liftE (int_of_json env (JStr t))))))))"

definition getJobStatus :: "env \<Rightarrow> pyval \<Rightarrow> json io" where
  "getJobStatus env jobId =
     (let jobId = str jobId in
      bindM (liftE (url_dict_get env TASKNAMES_GETJOBSTATUS)) (\<lambda>u.
      bindM (liftE (token env)) (\<lambda>tok.
      response_get env (replace u DCONST_JOB_ID jobId) tok
        (replace EXCEPT_GET_JOB_STATUS_ERROR DCONST_JOB_ID jobId))))"

definition cancelJob :: "env \<Rightarrow> pyval \<Rightarrow> bool io" where
  "cancelJob env jobId =
     (let jobId = str jobId in
      bindM (liftE (url_dict_get env TASKNAMES_CANCELJOB)) (\<lambda>u.
      bindM (liftE (token env)) (\<lambda>tok.
      bindM (liftE (get_headers tok PyNone)) (\<lambda>hs.
      bindM (http env \<lparr>req_method = DELETE,
                       req_url = replace u DCONST_JOB_ID jobId,
                       req_headers = hs,
                       req_data = NoData\<rparr>) (\<lambda>resp.
      bindM (liftE (validate_response_status env resp
                      (replace EXCEPT_CANCEL_JOB_ERROR DCONST_JOB_ID jobId))) (\<lambda>_.
      returnM True))))))"

text \<open>
  The loop of \<open>waitForJob\<close> has no bound of its own. The first argument bounds the number
  of polls: \<open>None\<close> is a call that has not returned within that many polls.
\<close>

definition minPollTime :: int where
  "minPollTime = 5"

definition waitingStr :: string where
  "waitingStr = ''Waiting...''"

fun waitForJob_loop ::
  "nat \<Rightarrow> env \<Rightarrow> pyval \<Rightarrow> bool \<Rightarrow> int \<Rightarrow> state \<Rightarrow> ((error + json) \<times> state) option" where
  "waitForJob_loop 0 env jobId verbose pollTime s = None"
| "waitForJob_loop (Suc fuel) env jobId verbose pollTime s =
     (let s1 = (if verbose then snd (emit (Print waitingStr) s) else s) in
      case getJobStatus env jobId s1 of
        (Inl e, s2) \<Rightarrow> Some (Inl e, s2)
      | (Inr jobDesc, s2) \<Rightarrow>
          (case bindE (getitem jobDesc ''Status'') (int_of_json env) of
             Inl e \<Rightarrow> Some (Inl e, s2)
           | Inr jobStatus \<Rightarrow>
               if jobStatus \<in> set [3, 4, 5]
               then Some (Inr jobDesc,
                          if verbose then snd (emit (Print (''Done!'' @ [CHR 0x0A])) s2) else s2)
               else waitForJob_loop fuel env jobId verbose pollTime
                      (snd (emit (Sleep (max minPollTime pollTime)) s2))))"

definition waitForJob ::
  "nat \<Rightarrow> env \<Rightarrow> pyval \<Rightarrow> bool \<Rightarrow> int \<Rightarrow> state \<Rightarrow> ((error + json) \<times> state) option" where
  "waitForJob fuel env jobId verbose pollTime s =
     waitForJob_loop fuel env jobId verbose pollTime
       (if verbose then snd (emit (Print waitingStr) s) else s)"

text \<open>\<open>bytesio.read()\<close>, written to a file opened in binary mode.\<close>

definition read_bytes :: "parsed \<Rightarrow> error + bytes" where
  "read_bytes p =
     (case p of BytesIO b \<Rightarrow> Inr b | StringIO t \<Rightarrow> Inl TypeError | _ \<Rightarrow> Inl AttributeError)"

definition writeFitsFileFromQuery :: "env \<Rightarrow> string \<Rightarrow> string \<Rightarrow> string \<Rightarrow> bool io" where
  "writeFitsFileFromQuery env fileName queryString context =
     bindM (set_task_name (Some (get_taskname env TASKNAMES_WRITEFITSFILEFROMQUERY))) (\<lambda>_.
     bindM (executeQuery env queryString context (PyStr ''fits'')) (\<lambda>bytesio.
     bindM (liftE (read_bytes bytesio)) (\<lambda>b.
     bindM (emit (FileWrite fileName b)) (\<lambda>_.
     returnM True))))"

text \<open>\<open>pandas.read_csv(cvsResponse, index_col=None)\<close>\<close>

definition pandas_read_csv :: "env \<Rightarrow> parsed \<Rightarrow> error + dataframe" where
  "pandas_read_csv env p =
     (case p of
        StringIO t \<Rightarrow> (case read_csv env t of None \<Rightarrow> Inl ParserError | Some df \<Rightarrow> Inr df)
      | _ \<Rightarrow> Inl ParserError)"

definition getPandasDataFrameFromQuery :: "env \<Rightarrow> string \<Rightarrow> string \<Rightarrow> dataframe io" where
  "getPandasDataFrameFromQuery env queryString context =
     bindM (set_task_name (Some (get_taskname env TASKNAMES_GETPANDASDATAFRAMEFROMQUERY))) (\<lambda>_.
     bindM (executeQuery env queryString context (PyStr ''readable'')) (\<lambda>cvsResponse.
     liftE (pandas_read_csv env cvsResponse)))"

definition getNumpyArrayFromQuery :: "env \<Rightarrow> string \<Rightarrow> string \<Rightarrow> string list list io" where
  "getNumpyArrayFromQuery env queryString context =
     bindM (set_task_name (Some (get_taskname env TASKNAMES_GETNUMPYARRAYFROMQUERY))) (\<lambda>_.
     bindM (getPandasDataFrameFromQuery env queryString context) (\<lambda>dataFrame.
     liftE (case as_matrix env dataFrame of None \<Rightarrow> Inl AttributeError | Some m \<Rightarrow> Inr m)))"

definition uploadCSVDataToTable :: "env \<Rightarrow> bytes \<Rightarrow> string \<Rightarrow> string \<Rightarrow> bool io" where
  "uploadCSVDataToTable env csvData tableName context =
     bindM (take_task_name env TASKNAMES_UPLOADCSVDATATOTABLE) (\<lambda>taskName.
     bindM (liftE (url_dict_get env TASKNAMES_EXECUTEQUERY)) (\<lambda>u.
     bindM (liftE (token env)) (\<lambda>tok.
     bindM (http env \<lparr>req_method = POST,
                      req_url = replace (replace (replace u DCONST_CONTEXT_ID context)
                                           DCONST_TABLENAME_ID tableName)
                                  DCONST_TASKNAME_ID (taskname_url env taskName),
                      req_headers = [(CASJOBSCONST_X_AUTH_TOKEN, tok)],
                      req_data = RawBytes csvData\<rparr>) (\<lambda>postResponse.
     bindM (liftE (validate_response_status env postResponse
                     (replace EXCEPT_UPLOAD_CSV_ERROR DCONST_TABLENAME_ID tableName))) (\<lambda>_.
     returnM True)))))"

text \<open>
  \<open>dataFrame.to_csv()\<close> writes a header line and a line for each row, the cells separated
  by commas; the index label and the index values come first on each line unless
  \<open>index=False\<close> is passed. Cells are taken to need no quoting.
\<close>

definition csv_lines :: "string list list \<Rightarrow> string" where
  "csv_lines ls = concat (map (\<lambda>cells. join '','' cells @ [CHR 0x0A]) ls)"

definition to_csv :: "dataframe \<Rightarrow> bool \<Rightarrow> string" where
  "to_csv df index =
     (if index
      then csv_lines ((str (index_name df) # columns df)
                      # map (\<lambda>(l, r). l # r) (zip (index_labels df) (rows df)))
      else csv_lines (columns df # rows df))"

definition uploadPandasDataFrameToTable :: "env \<Rightarrow> dataframe \<Rightarrow> string \<Rightarrow> string \<Rightarrow> bool io" where
  "uploadPandasDataFrameToTable env dataFrame tableName context =
     bindM (set_task_name (Some (get_taskname env TASKNAMES_UPLOADPANDASDATAFRAMETOTABLE))) (\<lambda>_.
     (let sio = (if index_name dataFrame \<noteq> PyNone \<and> index_name dataFrame \<noteq> PyStr []
                 then encode env (to_csv dataFrame True)
                 else encode env (to_csv dataFrame False))
      in uploadCSVDataToTable env sio tableName context))"

section \<open>Vocabulary of the properties\<close>

text \<open>The format tags the module recognizes, and the error it raises for any other.\<close>

definition recognized_formats :: "pyval list" where
  "recognized_formats =
     [PyStr ''pandas'', PyStr ''json'', PyStr ''dict'', PyStr ''csv'', PyStr ''readable'',
      PyStr ''StringIO'', PyStr ''fits'', PyStr ''BytesIO'']"

definition illegal_format :: "pyval \<Rightarrow> error" where
  "illegal_format v = ValueError (EXCEPT_ILLEGAL_FORMAT_ERROR @ str v)"

text \<open>
  The exceptions that decoding a response body can raise: of decoding the bytes, of
  parsing the JSON text, of the subscripts and \<open>len\<close> on the parsed value, and of the
  \<open>DataFrame\<close> constructor. None of them is the module's illegal-format error.
\<close>

fun decoding_error :: "error \<Rightarrow> bool" where
  "decoding_error UnicodeDecodeError = True"
| "decoding_error JSONDecodeError = True"
| "decoding_error (KeyError k) = True"
| "decoding_error TypeError = True"
| "decoding_error IndexError = True"
| "decoding_error PandasError = True"
| "decoding_error e = False"

text \<open>The message of the error raised for a response whose status is not 200.\<close>

definition http_error_message :: "string \<Rightarrow> int \<Rightarrow> string \<Rightarrow> string" where
  "http_error_message on_error code body =
     on_error @ '' Http Response from CasJobs API returned status code '' @ str_int code
       @ '':'' @ [CHR 0x0A] @ '' '' @ body"

subsection \<open>A concrete environment\<close>

text \<open>
  A server that reports a job as started on the first two requests it sees and as finished
  afterwards, and answers a posted query with one result set of one row, which holds 2
  for the query \<open>select 2\<close> and 1 for any other.
\<close>

definition demo_frame :: dataframe where
  "demo_frame = \<lparr>index_name = PyStr ''id'', index_labels = [''1'', ''2''],
                  columns = [''a'', ''b''], rows = [[''x'', ''y''], [''z'', ''w'']]\<rparr>"

definition demo_result :: "int \<Rightarrow> json" where
  "demo_result v =
     JObj [(''Result'', JArr [JObj [(''Columns'', JArr [JStr ''a'']),
                                    (''Data'', JArr [JArr [JNum v]])]])]"

definition demo_loads :: "string \<Rightarrow> json option" where
  "demo_loads t =
     (if t = ''{Status:1}'' then Some (JObj [(''Status'', JNum 1)])
      else if t = ''{Status:5}'' then Some (JObj [(''Status'', JNum 5)])
      else if t = ''{Result:[{Columns:[a],Data:[[1]]}]}'' then Some (demo_result 1)
      else if t = ''{Result:[{Columns:[a],Data:[[2]]}]}'' then Some (demo_result 2)
      else None)"

definition demo_server :: "nat \<Rightarrow> request \<Rightarrow> response" where
  "demo_server n r =
     (if req_method r = GET
      then \<lparr>status_code = 200, content = (if n < 2 then ''{Status:1}'' else ''{Status:5}'')\<rparr>
      else if req_data r = Dumps [(''Query'', ''select 2''),
                                  (''TaskName'', ''SciScript-Python.CasJobs.executeQuery'')]
      then \<lparr>status_code = 200, content = ''{Result:[{Columns:[a],Data:[[2]]}]}''\<rparr>
      else \<lparr>status_code = 200, content = ''{Result:[{Columns:[a],Data:[[1]]}]}''\<rparr>)"

definition demo_env :: env where
  "demo_env =
     \<lparr>getToken = Some ''secret'',
      getKeystoneUserWithToken = (\<lambda>t. Some ''user1''),
      isSciServerComputeEnvironment = False,
      CasJobsRESTUri = ''https://casjobs.example/RestApi'',
      server = demo_server,
      decode = Some,
      encode = (\<lambda>t. t),
      loads = demo_loads,
      int_of_str = (\<lambda>t. None),
      repr = (\<lambda>j. []),
      pandas_DataFrame = (\<lambda>d c. Some demo_frame),
      read_csv = (\<lambda>t. Some demo_frame),
      as_matrix = (\<lambda>df. Some (rows df))\<rparr>"

text \<open>A decoder of bytes that accepts ASCII only, as a strict decoder does for a lone byte 255.\<close>

definition decode_ascii :: "bytes \<Rightarrow> string option" where
  "decode_ascii b = (if list_all (\<lambda>c. (of_char c :: nat) < 128) b then Some b else None)"

definition state0 :: state where
  "state0 = \<lparr>task = \<lparr>name = None\<rparr>, trace = []\<rparr>"

subsection \<open>Task names in requests\<close>

text \<open>The prefix \<open>__get_taskname\<close> puts before a name, by environment.\<close>

definition task_prefix :: "env \<Rightarrow> string" where
  "task_prefix env = get_taskname env []"

text \<open>The \<open>TaskName\<close> field of a request body, when the body has one.\<close>

definition body_task_name :: "payload \<Rightarrow> string option" where
  "body_task_name d = (case d of Dumps kvs \<Rightarrow> map_of kvs CASJOBSCONST_TASKNAME | _ \<Rightarrow> None)"

text \<open>
  The URLs \<open>executeQuery\<close> and \<open>uploadCSVDataToTable\<close> post to, for a context, a table
  name and the call's task name: the substitutions into the execute-query template.
\<close>

definition query_url :: "env \<Rightarrow> string \<Rightarrow> string \<Rightarrow> string" where
  "query_url env ctx taskName =
     replace (replace (CasJobsRESTUri env @ ''/contexts/<context>/query<taskname>'')
                DCONST_CONTEXT_ID ctx)
       DCONST_TASKNAME_ID (taskname_url env taskName)"

definition upload_url :: "env \<Rightarrow> string \<Rightarrow> string \<Rightarrow> string \<Rightarrow> string" where
  "upload_url env ctx tbl taskName =
     replace (replace (replace (CasJobsRESTUri env @ ''/contexts/<context>/query<taskname>'')
                DCONST_CONTEXT_ID ctx) DCONST_TABLENAME_ID tbl)
       DCONST_TASKNAME_ID (taskname_url env taskName)"

subsection \<open>Polling a job\<close>

text \<open>The request \<open>getJobStatus\<close> sends for a job, with the token \<open>tok\<close>.\<close>

definition poll_request :: "env \<Rightarrow> pyval \<Rightarrow> string \<Rightarrow> request" where
  "poll_request env jobId tok =
     \<lparr>req_method = GET,
      req_url = replace (CasJobsRESTUri env @ ''/jobs/<job_id>''
                           @ taskname_url env TASKNAMES_GETJOBSTATUS)
                  DCONST_JOB_ID (str jobId),
      req_headers = [(CASJOBSCONST_X_AUTH_TOKEN, tok),
                     (CASJOBSCONST_CONTENT_TYPE, CASJOBSCONST_CONTENT_JSON)],
      req_data = NoData\<rparr>"

text \<open>
  What \<open>getJobStatus\<close> returns when \<open>k\<close> requests were sent before its own: the status
  record, or the error of the validation or of the decoding.
\<close>

definition poll :: "env \<Rightarrow> pyval \<Rightarrow> string \<Rightarrow> nat \<Rightarrow> error + json" where
  "poll env jobId tok k =
     (let resp = server env k (poll_request env jobId tok) in
      bindE (validate_response_status env resp
               (replace EXCEPT_GET_JOB_STATUS_ERROR DCONST_JOB_ID (str jobId)))
        (\<lambda>_. response_to_json env resp))"

text \<open>\<open>int(jobDesc["Status"])\<close>, and the statuses Canceled, Failed and Finished.\<close>

definition job_status :: "env \<Rightarrow> json \<Rightarrow> error + int" where
  "job_status env jobDesc = bindE (getitem jobDesc ''Status'') (int_of_json env)"

definition terminal :: "int \<Rightarrow> bool" where
  "terminal st = (st \<in> set [3, 4, 5])"

definition polled_status :: "env \<Rightarrow> pyval \<Rightarrow> string \<Rightarrow> nat \<Rightarrow> error + int" where
  "polled_status env jobId tok k = bindE (poll env jobId tok k) (job_status env)"

text \<open>The durations of the sleeps among some events, in order.\<close>

fun sleeps :: "event list \<Rightarrow> int list" where
  "sleeps [] = []"
| "sleeps (Sleep d # es) = d # sleeps es"
| "sleeps (e # es) = sleeps es"

text \<open>The events of a run of \<open>waitForJob\<close> that polls \<open>n\<close> times before the last poll.\<close>

definition waiting :: "bool \<Rightarrow> event list" where
  "waiting verbose = (if verbose then [Print waitingStr] else [])"

definition wait_events :: "bool \<Rightarrow> int \<Rightarrow> request \<Rightarrow> nat \<Rightarrow> event list" where
  "wait_events verbose pollTime q n =
     waiting verbose
       @ concat (replicate n (waiting verbose @ [Req q, Sleep (max pollTime 5)]))
       @ waiting verbose @ [Req q]
       @ (if verbose then [Print (''Done!'' @ [CHR 0x0A])] else [])"

subsection \<open>The public operations\<close>

text \<open>A call of one of the public functions of \<open>CasJobs.py\<close>, with its arguments.\<close>

datatype api_call =
    GetSchemaName
  | GetTables string
  | ExecuteQuery string string pyval
  | ExecuteQueryAsync sql_arg string pyval
  | SubmitJob string string
  | GetJobStatus pyval
  | CancelJob pyval
  | WaitForJob pyval bool int
  | WriteFitsFileFromQuery string string string
  | GetPandasDataFrameFromQuery string string
  | GetNumpyArrayFromQuery string string
  | UploadPandasDataFrameToTable dataframe string string
  | UploadCSVDataToTable bytes string string

text \<open>The outcome of a call without the value returned: the error raised, if any, and the state.\<close>

definition outcome :: "'a io \<Rightarrow> state \<Rightarrow> ((error + unit) \<times> state) option" where
  "outcome m s = (case m s of (Inl e, s') \<Rightarrow> Some (Inl e, s') | (Inr x, s') \<Rightarrow> Some (Inr (), s'))"

fun call :: "nat \<Rightarrow> env \<Rightarrow> api_call \<Rightarrow> state \<Rightarrow> ((error + unit) \<times> state) option" where
  "call fuel env GetSchemaName s = outcome (getSchemaName env) s"
| "call fuel env (GetTables context) s = outcome (getTables env context) s"
| "call fuel env (ExecuteQuery sql context format) s = outcome (executeQuery env sql context format) s"
| "call fuel env (ExecuteQueryAsync sql context format) s =
     outcome (executeQueryAsync env sql context format) s"
| "call fuel env (SubmitJob sql context) s = outcome (submitJob env sql context) s"
| "call fuel env (GetJobStatus jobId) s = outcome (getJobStatus env jobId) s"
| "call fuel env (CancelJob jobId) s = outcome (cancelJob env jobId) s"
| "call fuel env (WaitForJob jobId verbose pollTime) s =
     (case waitForJob fuel env jobId verbose pollTime s of
        None \<Rightarrow> None
      | Some (Inl e, s') \<Rightarrow> Some (Inl e, s')
      | Some (Inr d, s') \<Rightarrow> Some (Inr (), s'))"
| "call fuel env (WriteFitsFileFromQuery fileName queryString context) s =
     outcome (writeFitsFileFromQuery env fileName queryString context) s"
| "call fuel env (GetPandasDataFrameFromQuery queryString context) s =
     outcome (getPandasDataFrameFromQuery env queryString context) s"
| "call fuel env (GetNumpyArrayFromQuery queryString context) s =
     outcome (getNumpyArrayFromQuery env queryString context) s"
| "call fuel env (UploadPandasDataFrameToTable dataFrame tableName context) s =
     outcome (uploadPandasDataFrameToTable env dataFrame tableName context) s"
| "call fuel env (UploadCSVDataToTable csvData tableName context) s =
     outcome (uploadCSVDataToTable env csvData tableName context) s"

text \<open>
  The headers the module passes with a request, by method and body, for the token \<open>tok\<close>:
  with an upload (a POST of bytes) the token alone; with every other request the token
  and the JSON content type; with a PUT also the accept type of text; with a POST of a
  query possibly also one of the three accept types of the dispatch table.
\<close>

definition base_headers :: "string \<Rightarrow> (string \<times> string) list" where
  "base_headers tok =
     [(CASJOBSCONST_X_AUTH_TOKEN, tok), (CASJOBSCONST_CONTENT_TYPE, CASJOBSCONST_CONTENT_JSON)]"

definition accept_types :: "string list" where
  "accept_types = [''application/json+array'', ''text/plain'', ''application/fits'']"

definition headers_ok :: "string \<Rightarrow> request \<Rightarrow> bool" where
  "headers_ok tok r =
     (case req_method r of
        GET \<Rightarrow> req_headers r = base_headers tok
      | DELETE \<Rightarrow> req_headers r = base_headers tok
      | PUT \<Rightarrow> req_headers r = base_headers tok @ [(CASJOBSCONST_ACCEPT, ''text/plain'')]
      | POST \<Rightarrow>
          (case req_data r of
             RawBytes b \<Rightarrow> req_headers r = [(CASJOBSCONST_X_AUTH_TOKEN, tok)]
           | _ \<Rightarrow> req_headers r \<in> set (base_headers tok
                     # map (\<lambda>a. base_headers tok @ [(CASJOBSCONST_ACCEPT, a)]) accept_types)))"

text \<open>
  A computation all of whose requests satisfy \<open>P\<close> and all of whose errors satisfy \<open>E\<close>.
\<close>

definition safe :: "(request \<Rightarrow> bool) \<Rightarrow> (error \<Rightarrow> bool) \<Rightarrow> 'a io \<Rightarrow> bool" where
  "safe P E m =
     (\<forall>s. (\<exists>rs. requests (trace (snd (m s))) = requests (trace s) @ rs \<and> list_all P rs) \<and>
          (\<forall>e. fst (m s) = Inl e \<longrightarrow> E e))"

definition login_error :: error where
  "login_error = ValueError EXCEPT_LOGIN_ERROR"

section \<open>Auxiliary facts\<close>

subsection \<open>String replacement\<close>

lemma replace_Nil [simp]: "replace [] (a # as) new = []"
  by (simp add: replace.simps)

lemma replace_Cons [simp]:
  "replace (c # cs) (a # as) new =
     (case strip_prefix (a # as) (c # cs) of
        Some rest \<Rightarrow> new @ replace rest (a # as) new
      | None \<Rightarrow> c # replace cs (a # as) new)"
  by (subst replace.simps) simp

lemma http_error_replace:
  "replace EXCEPT_HTTP_ERROR DCONST_HTTP_CODE_ID code =
     ''Http Response from CasJobs API returned status code '' @ code @ '':'' @ [CHR 0x0A]"
  by (simp add: EXCEPT_HTTP_ERROR_def DCONST_HTTP_CODE_ID_def join_str_def)

lemma join_str3: "join_str [a, b, c] sep = a @ sep @ b @ sep @ c"
  by (simp add: join_str_def)

subsection \<open>Which errors the decoding steps can raise\<close>

lemma bindE_ValueError:
  "bindE m f = Inl (ValueError msg) \<Longrightarrow>
     m = Inl (ValueError msg) \<or> (\<exists>x. m = Inr x \<and> f x = Inl (ValueError msg))"
  by (cases m) (simp_all add: bindE_def)

lemma content_decode_no_ValueError: "content_decode env resp \<noteq> Inl (ValueError msg)"
  by (simp add: content_decode_def split: option.splits)

lemma response_to_json_no_ValueError: "response_to_json env resp \<noteq> Inl (ValueError msg)"
  by (auto simp: response_to_json_def orjson_loads_def content_decode_def bindE_def
           split: option.splits sum.splits)

lemma getitem_no_ValueError: "getitem j k \<noteq> Inl (ValueError msg)"
  by (cases j) (simp_all split: option.splits)

lemma getitem0_no_ValueError: "getitem0 j \<noteq> Inl (ValueError msg)"
  by (cases j) (simp_all split: list.splits)

lemma len_no_ValueError: "len j \<noteq> Inl (ValueError msg)"
  by (cases j) simp_all

lemma iter_no_ValueError: "iter j \<noteq> Inl (ValueError msg)"
  by (cases j) simp_all

lemma frame_of_result_no_ValueError: "frame_of_result env r \<noteq> Inl (ValueError msg)"
  by (auto simp: frame_of_result_def dest!: bindE_ValueError
           simp: getitem_no_ValueError split: option.splits)

lemma collect_no_ValueError:
  "\<forall>x \<in> set rs. x \<noteq> Inl (ValueError msg) \<Longrightarrow> collect rs \<noteq> Inl (ValueError msg)"
proof (induction rs)
  case Nil
  show ?case by simp
next
  case (Cons r rs)
  then show ?case by (cases r) (auto split: sum.splits)
qed

lemma parse_post_text_formats:
  "parse_post env resp (PyStr ''readable'') \<noteq> Inl (ValueError msg)"
  "parse_post env resp (PyStr ''StringIO'') \<noteq> Inl (ValueError msg)"
  "parse_post env resp (PyStr ''csv'') \<noteq> Inl (ValueError msg)"
  "parse_post env resp (PyStr ''json'') \<noteq> Inl (ValueError msg)"
  by (auto simp: parse_post_def content_decode_no_ValueError dest!: bindE_ValueError)

lemma parse_post_bytes_formats:
  "parse_post env resp (PyStr ''fits'') \<noteq> Inl (ValueError msg)"
  "parse_post env resp (PyStr ''BytesIO'') \<noteq> Inl (ValueError msg)"
  by (simp_all add: parse_post_def)

lemma parse_post_dict: "parse_post env resp (PyStr ''dict'') \<noteq> Inl (ValueError msg)"
  by (auto simp: parse_post_def response_to_json_no_ValueError dest!: bindE_ValueError)

lemma parse_post_pandas: "parse_post env resp (PyStr ''pandas'') \<noteq> Inl (ValueError msg)"
  by (auto simp: parse_post_def response_to_json_no_ValueError getitem_no_ValueError
            len_no_ValueError iter_no_ValueError getitem0_no_ValueError
            frame_of_result_no_ValueError collect_no_ValueError
          dest!: bindE_ValueError split: if_splits)

lemma recognized_formats_cases:
  "fmt \<in> set recognized_formats \<Longrightarrow>
     fmt = PyStr ''pandas'' \<or> fmt = PyStr ''json'' \<or> fmt = PyStr ''dict'' \<or>
     fmt = PyStr ''csv'' \<or> fmt = PyStr ''readable'' \<or> fmt = PyStr ''StringIO'' \<or>
     fmt = PyStr ''fits'' \<or> fmt = PyStr ''BytesIO''"
  by (simp add: recognized_formats_def)

lemma parse_post_recognized:
  assumes "fmt \<in> set recognized_formats"
  shows "parse_post env resp fmt \<noteq> Inl (ValueError msg)"
  using recognized_formats_cases [OF assms]
  by (elim disjE)
     (simp_all only: parse_post_text_formats parse_post_bytes_formats parse_post_dict
        parse_post_pandas not_False_eq_True)

lemma format_to_accept_header_recognized:
  "fmt \<in> set recognized_formats \<Longrightarrow>
     format_to_accept_header fmt
       \<in> set [Inr ''application/json+array'', Inr ''text/plain'', Inr ''application/fits'']"
  by (auto simp: recognized_formats_def format_to_accept_header_def)

lemma unrecognized_format_raises:
  "fmt \<notin> set recognized_formats \<Longrightarrow>
     format_to_accept_header fmt = Inl (illegal_format fmt) \<and>
     parse_post env resp fmt = Inl (illegal_format fmt)"
  by (simp add: recognized_formats_def format_to_accept_header_def parse_post_def
        illegal_format_def)

lemma bindE_Inl:
  "bindE m f = Inl e \<Longrightarrow> m = Inl e \<or> (\<exists>x. m = Inr x \<and> f x = Inl e)"
  by (cases m) (simp_all add: bindE_def)

lemma content_decode_eq:
  "content_decode env resp =
     (case decode env (content resp) of None \<Rightarrow> Inl UnicodeDecodeError | Some t \<Rightarrow> Inr t)"
  by (simp add: content_decode_def)

lemma response_to_json_eq:
  "response_to_json env resp =
     (case decode env (content resp) of
        None \<Rightarrow> Inl UnicodeDecodeError
      | Some t \<Rightarrow> (case loads env t of None \<Rightarrow> Inl JSONDecodeError | Some j \<Rightarrow> Inr j))"
  by (simp add: response_to_json_def content_decode_def orjson_loads_def bindE_def
           split: option.splits)

lemma content_decode_decoding: "content_decode env resp = Inl e \<Longrightarrow> decoding_error e"
  by (auto simp: content_decode_def split: option.splits)

lemma response_to_json_decoding: "response_to_json env resp = Inl e \<Longrightarrow> decoding_error e"
  by (auto simp: response_to_json_eq split: option.splits)

lemma getitem_decoding: "getitem j k = Inl e \<Longrightarrow> decoding_error e"
  by (cases j) (auto split: option.splits)

lemma getitem0_decoding: "getitem0 j = Inl e \<Longrightarrow> decoding_error e"
  by (cases j) (auto split: list.splits)

lemma len_decoding: "len j = Inl e \<Longrightarrow> decoding_error e"
  by (cases j) auto

lemma iter_decoding: "iter j = Inl e \<Longrightarrow> decoding_error e"
  by (cases j) auto

lemma frame_of_result_decoding: "frame_of_result env r = Inl e \<Longrightarrow> decoding_error e"
  unfolding frame_of_result_def
  by (auto dest!: bindE_Inl dest: getitem_decoding split: option.splits)

lemma collect_Inl: "collect rs = Inl e \<Longrightarrow> Inl e \<in> set rs"
proof (induction rs)
  case Nil
  then show ?case by simp
next
  case (Cons r rs)
  then show ?case by (cases r) (auto split: sum.splits)
qed

lemma collect_frames_decoding:
  "collect (map (frame_of_result env) results) = Inl e \<Longrightarrow> decoding_error e"
  by (auto dest!: collect_Inl dest: frame_of_result_decoding [OF sym])

lemma parse_post_text_eq:
  "parse_post env resp (PyStr ''readable'') =
     (case decode env (content resp) of None \<Rightarrow> Inl UnicodeDecodeError | Some t \<Rightarrow> Inr (StringIO t))"
  "parse_post env resp (PyStr ''StringIO'') =
     (case decode env (content resp) of None \<Rightarrow> Inl UnicodeDecodeError | Some t \<Rightarrow> Inr (StringIO t))"
  "parse_post env resp (PyStr ''csv'') =
     (case decode env (content resp) of None \<Rightarrow> Inl UnicodeDecodeError | Some t \<Rightarrow> Inr (Text t))"
  "parse_post env resp (PyStr ''json'') =
     (case decode env (content resp) of None \<Rightarrow> Inl UnicodeDecodeError | Some t \<Rightarrow> Inr (Text t))"
  by (simp_all add: parse_post_def content_decode_def bindE_def split: option.splits)

lemma parse_post_bytes_eq:
  "parse_post env resp (PyStr ''fits'') = Inr (BytesIO (content resp))"
  "parse_post env resp (PyStr ''BytesIO'') = Inr (BytesIO (content resp))"
  by (simp_all add: parse_post_def)

lemma parse_post_dict_eq:
  "parse_post env resp (PyStr ''dict'') =
     (case decode env (content resp) of
        None \<Rightarrow> Inl UnicodeDecodeError
      | Some t \<Rightarrow> (case loads env t of None \<Rightarrow> Inl JSONDecodeError | Some j \<Rightarrow> Inr (Dict j)))"
  by (simp add: parse_post_def response_to_json_eq bindE_def split: option.splits)

lemma parse_post_pandas_eq:
  "parse_post env resp (PyStr ''pandas'') =
     (case decode env (content resp) of
        None \<Rightarrow> Inl UnicodeDecodeError
      | Some t \<Rightarrow>
          (case loads env t of
             None \<Rightarrow> Inl JSONDecodeError
           | Some r \<Rightarrow>
               bindE (getitem r ''Result'') (\<lambda>res.
               bindE (len res) (\<lambda>n.
                 if 1 < n
                 then bindE (iter res) (\<lambda>results.
                      bindE (collect (map (frame_of_result env) results)) (\<lambda>dfs. Inr (Frames dfs)))
                 else bindE (getitem0 res) (\<lambda>r0.
                      bindE (frame_of_result env r0) (\<lambda>df. Inr (Frame df)))))))"
  by (simp add: parse_post_def response_to_json_eq bindE_def split: option.splits)

lemma parse_post_pandas_decoding:
  assumes "parse_post env resp (PyStr ''pandas'') = Inl e"
  shows "decoding_error e"
proof -
  from assms have "bindE (response_to_json env resp) (\<lambda>r.
           bindE (getitem r ''Result'') (\<lambda>res.
           bindE (len res) (\<lambda>n.
             if n > 1
             then bindE (iter res) (\<lambda>results.
                  bindE (collect (map (frame_of_result env) results)) (\<lambda>dfs. Inr (Frames dfs)))
             else bindE (getitem0 res) (\<lambda>r0.
                  bindE (frame_of_result env r0) (\<lambda>df. Inr (Frame df)))))) = Inl e"
    by (simp add: parse_post_def)
  then show ?thesis
    by (auto dest!: bindE_Inl split: if_splits
             dest: response_to_json_decoding getitem_decoding len_decoding iter_decoding
                   getitem0_decoding frame_of_result_decoding collect_frames_decoding)
qed

lemma parse_post_recognized_decoding:
  assumes "fmt \<in> set recognized_formats" and "parse_post env resp fmt = Inl e"
  shows "decoding_error e"
  using recognized_formats_cases [OF assms(1)] assms(2)
  by (elim disjE)
     (auto simp: parse_post_text_eq parse_post_bytes_eq parse_post_dict_eq
           dest: parse_post_pandas_decoding split: option.splits)

subsection \<open>Validation of the response status\<close>

lemma validate_response_status_eq:
  "validate_response_status env resp on_error =
     (if status_code resp = 200 then Inr ()
      else case decode env (content resp) of
             None \<Rightarrow> Inl UnicodeDecodeError
           | Some body \<Rightarrow> Inl (ValueError (http_error_message on_error (status_code resp) body)))"
  by (simp add: validate_response_status_def content_decode_def bindE_def join_str3
        http_error_replace http_error_message_def split: option.splits)

lemma async_validate_response_status_eq:
  "async_validate_response_status env resp =
     validate_response_status env resp EXCEPT_EXECUTE_QUERY_ERROR"
  by (simp add: async_validate_response_status_def validate_response_status_def)

lemma http_error_message_contains:
  "sublist on_error (http_error_message on_error code body)"
  "sublist (str_int code) (http_error_message on_error code body)"
  "sublist body (http_error_message on_error code body)"
proof -
  show "sublist on_error (http_error_message on_error code body)"
    unfolding http_error_message_def by (rule sublist_append_rightI)
  have "http_error_message on_error code body =
          (on_error @ '' Http Response from CasJobs API returned status code '') @ str_int code
            @ ('':'' @ [CHR 0x0A] @ '' '' @ body)"
    by (simp add: http_error_message_def)
  then show "sublist (str_int code) (http_error_message on_error code body)"
    by (simp only: sublist_appendI)
  have "http_error_message on_error code body =
          (on_error @ '' Http Response from CasJobs API returned status code '' @ str_int code
            @ '':'' @ [CHR 0x0A] @ '' '') @ body"
    by (simp add: http_error_message_def)
  then show "sublist body (http_error_message on_error code body)"
    by (simp only: sublist_append_leftI)
qed

subsection \<open>URL construction\<close>

lemma replace_append_free:
  "a \<notin> set p \<Longrightarrow> replace (p @ s) (a # as) new = p @ replace s (a # as) new"
  by (induction p) auto

lemma url_dict_get_simps:
  "url_dict_get env TASKNAMES_GETSCHEMANAME =
     Inr (CasJobsRESTUri env @ ''/users/<keystone_user_id>'' @ taskname_url env TASKNAMES_GETSCHEMANAME)"
  "url_dict_get env TASKNAMES_GETTABLES =
     Inr (CasJobsRESTUri env @ ''/contexts/<context>/Tables'' @ taskname_url env TASKNAMES_GETTABLES)"
  "url_dict_get env TASKNAMES_EXECUTEQUERY =
     Inr (CasJobsRESTUri env @ ''/contexts/<context>/query<taskname>'')"
  "url_dict_get env TASKNAMES_SUBMITJOB =
     Inr (CasJobsRESTUri env @ ''/contexts/<context>/jobs'' @ taskname_url env TASKNAMES_SUBMITJOB)"
  "url_dict_get env TASKNAMES_GETJOBSTATUS =
     Inr (CasJobsRESTUri env @ ''/jobs/<job_id>'' @ taskname_url env TASKNAMES_GETJOBSTATUS)"
  "url_dict_get env TASKNAMES_CANCELJOB =
     Inr (CasJobsRESTUri env @ ''/jobs/<job_id>'' @ taskname_url env TASKNAMES_CANCELJOB)"
  by (simp_all add: url_dict_get_def URL_DICT_def join_str_def
        TASKNAMES_GETSCHEMANAME_def TASKNAMES_GETTABLES_def TASKNAMES_EXECUTEQUERY_def
        TASKNAMES_SUBMITJOB_def TASKNAMES_GETJOBSTATUS_def TASKNAMES_CANCELJOB_def
        TASKNAMES_UPLOADCSVDATATOTABLE_def
        URLCONST_USERS_def URLCONST_CONTEXTS_def URLCONST_TABLES_def URLCONST_QUERY_def
        URLCONST_JOBS_def DCONST_CONTEXT_ID_def DCONST_JOB_ID_def DCONST_TASKNAME_ID_def
        DCONST_TABLENAME_ID_def CASJOBSCONST_KEYSTONE_USER_ID_def)

lemma query_url_subst:
  assumes "CHR ''<'' \<notin> set base" "CHR ''<'' \<notin> set ctx"
  shows "replace (replace (base @ ''/contexts/<context>/query<taskname>'') DCONST_CONTEXT_ID ctx)
           DCONST_TASKNAME_ID t = base @ ''/contexts/'' @ ctx @ ''/query'' @ t"
proof -
  have 1: "replace (base @ ''/contexts/<context>/query<taskname>'') DCONST_CONTEXT_ID ctx
        = base @ ''/contexts/'' @ ctx @ ''/query<taskname>''"
    using assms(1) by (simp add: DCONST_CONTEXT_ID_def replace_append_free)
  have 2: "replace ((base @ ''/contexts/'' @ ctx) @ ''/query<taskname>'') DCONST_TASKNAME_ID t
        = (base @ ''/contexts/'' @ ctx) @ ''/query'' @ t"
    unfolding DCONST_TASKNAME_ID_def
    by (subst replace_append_free) (use assms in simp_all)
  show ?thesis using 1 2 by simp
qed

lemma upload_url_subst:
  assumes "CHR ''<'' \<notin> set base" "CHR ''<'' \<notin> set ctx"
  shows "replace (replace (replace (base @ ''/contexts/<context>/query<taskname>'') DCONST_CONTEXT_ID ctx)
           DCONST_TABLENAME_ID tbl) DCONST_TASKNAME_ID t = base @ ''/contexts/'' @ ctx @ ''/query'' @ t"
proof -
  have 1: "replace (base @ ''/contexts/<context>/query<taskname>'') DCONST_CONTEXT_ID ctx
        = (base @ ''/contexts/'' @ ctx) @ ''/query<taskname>''"
    using assms(1) by (simp add: DCONST_CONTEXT_ID_def replace_append_free)
  have 2: "replace ((base @ ''/contexts/'' @ ctx) @ ''/query<taskname>'') DCONST_TABLENAME_ID tbl
        = (base @ ''/contexts/'' @ ctx) @ ''/query<taskname>''"
    unfolding DCONST_TABLENAME_ID_def
    by (subst replace_append_free) (use assms in simp_all)
  have 3: "replace ((base @ ''/contexts/'' @ ctx) @ ''/query<taskname>'') DCONST_TASKNAME_ID t
        = (base @ ''/contexts/'' @ ctx) @ ''/query'' @ t"
    unfolding DCONST_TASKNAME_ID_def
    by (subst replace_append_free) (use assms in simp_all)
  show ?thesis by (simp only: 1 2 3) simp
qed

subsection \<open>Running the operations\<close>

lemma requests_append: "requests (xs @ ys) = requests xs @ requests ys"
  by (induction xs rule: requests.induct) simp_all

lemma requests_snoc [simp]:
  "requests (xs @ [Req r]) = requests xs @ [r]"
  "requests (xs @ [Sleep d]) = requests xs"
  "requests (xs @ [Print t]) = requests xs"
  "requests (xs @ [FileWrite f b]) = requests xs"
  by (simp_all add: requests_append)

lemmas io_defs = bindM_def liftE_def returnM_def raiseM_def emit_def http_def

lemma token_valid: "getToken env = Some tok \<Longrightarrow> tok \<noteq> [] \<Longrightarrow> token env = Inr tok"
  by (simp add: token_def)

lemma token_invalid:
  "getToken env = None \<or> getToken env = Some [] \<Longrightarrow> token env = Inl (ValueError EXCEPT_LOGIN_ERROR)"
  by (auto simp: token_def)

lemma executeQuery_run:
  assumes "token env = Inr tok" "get_headers tok fmt = Inr hs"
  shows "executeQuery env sql ctx fmt s =
     (let taskName = (case name (task s) of Some n \<Rightarrow> n
                      | None \<Rightarrow> get_taskname env TASKNAMES_EXECUTEQUERY);
          r = \<lparr>req_method = POST,
               req_url = replace (replace (CasJobsRESTUri env @ ''/contexts/<context>/query<taskname>'')
                                    DCONST_CONTEXT_ID ctx)
                           DCONST_TASKNAME_ID (taskname_url env taskName),
               req_headers = hs,
               req_data = format_data sql taskName\<rparr>;
          resp = server env (length (requests (trace s))) r
      in (bindE (validate_response_status env resp EXCEPT_EXECUTE_QUERY_ERROR)
            (\<lambda>_. parse_post env resp fmt),
          s\<lparr>task := (task s)\<lparr>name := None\<rparr>, trace := trace s @ [Req r]\<rparr>))"
  using assms
  by (cases "name (task s)")
     (simp_all add: executeQuery_def take_task_name_def io_defs url_dict_get_simps Let_def
        bindE_def split: sum.splits)

lemma uploadCSVDataToTable_run:
  assumes "token env = Inr tok"
  shows "uploadCSVDataToTable env csvData tbl ctx s =
     (let taskName = (case name (task s) of Some n \<Rightarrow> n
                      | None \<Rightarrow> get_taskname env TASKNAMES_UPLOADCSVDATATOTABLE);
          r = \<lparr>req_method = POST,
               req_url = replace (replace (replace
                             (CasJobsRESTUri env @ ''/contexts/<context>/query<taskname>'')
                                    DCONST_CONTEXT_ID ctx) DCONST_TABLENAME_ID tbl)
                           DCONST_TASKNAME_ID (taskname_url env taskName),
               req_headers = [(CASJOBSCONST_X_AUTH_TOKEN, tok)],
               req_data = RawBytes csvData\<rparr>;
          resp = server env (length (requests (trace s))) r
      in (bindE (validate_response_status env resp
                   (replace EXCEPT_UPLOAD_CSV_ERROR DCONST_TABLENAME_ID tbl)) (\<lambda>_. Inr True),
          s\<lparr>task := (task s)\<lparr>name := None\<rparr>, trace := trace s @ [Req r]\<rparr>))"
  using assms
  by (cases "name (task s)")
     (simp_all add: uploadCSVDataToTable_def take_task_name_def io_defs url_dict_get_simps Let_def
        bindE_def split: sum.splits)

lemma executeQuery_resets: "name (task (snd (executeQuery env sql ctx fmt s))) = None"
  by (cases "name (task s)")
     (simp_all add: executeQuery_def take_task_name_def io_defs split: sum.splits prod.splits)

lemma uploadCSVDataToTable_resets:
  "name (task (snd (uploadCSVDataToTable env csvData tbl ctx s))) = None"
  by (cases "name (task s)")
     (simp_all add: uploadCSVDataToTable_def take_task_name_def io_defs split: sum.splits prod.splits)

lemma get_taskname_prefix: "get_taskname env t = task_prefix env @ t"
  by (simp add: get_taskname_def task_prefix_def)

lemma taskname_url_eq: "taskname_url env t = ''?TaskName='' @ task_prefix env @ t"
  by (simp add: taskname_url_def get_taskname_prefix URLCONST_TASKNAME_def CASJOBSCONST_TASKNAME_def)

lemma body_task_name_format_data: "body_task_name (format_data sql t) = Some t"
  by (simp add: body_task_name_def format_data_def CASJOBSCONST_TASKNAME_def CASJOBSCONST_QUERY_def)

lemma query_url_free:
  "CHR ''<'' \<notin> set (CasJobsRESTUri env) \<Longrightarrow> CHR ''<'' \<notin> set ctx \<Longrightarrow>
     query_url env ctx t =
       CasJobsRESTUri env @ ''/contexts/'' @ ctx @ ''/query?TaskName='' @ task_prefix env @ t"
  by (simp add: query_url_def query_url_subst taskname_url_eq)

lemma upload_url_free:
  "CHR ''<'' \<notin> set (CasJobsRESTUri env) \<Longrightarrow> CHR ''<'' \<notin> set ctx \<Longrightarrow>
     upload_url env ctx tbl t =
       CasJobsRESTUri env @ ''/contexts/'' @ ctx @ ''/query?TaskName='' @ task_prefix env @ t"
  by (simp add: upload_url_def upload_url_subst taskname_url_eq)

lemma executeQuery_trace:
  assumes "getToken env = Some tok" "tok \<noteq> []" "get_headers tok fmt = Inr hs"
  shows "trace (snd (executeQuery env sql ctx fmt s)) =
     trace s @ [Req \<lparr>req_method = POST,
                     req_url = query_url env ctx
                       (case name (task s) of Some n \<Rightarrow> n
                        | None \<Rightarrow> get_taskname env TASKNAMES_EXECUTEQUERY),
                     req_headers = hs,
                     req_data = format_data sql
                       (case name (task s) of Some n \<Rightarrow> n
                        | None \<Rightarrow> get_taskname env TASKNAMES_EXECUTEQUERY)\<rparr>]"
  by (simp add: executeQuery_run [OF token_valid [OF assms(1,2)] assms(3)] Let_def query_url_def)

lemma uploadCSVDataToTable_trace:
  assumes "getToken env = Some tok" "tok \<noteq> []"
  shows "trace (snd (uploadCSVDataToTable env csvData tbl ctx s)) =
     trace s @ [Req \<lparr>req_method = POST,
                     req_url = upload_url env ctx tbl
                       (case name (task s) of Some n \<Rightarrow> n
                        | None \<Rightarrow> get_taskname env TASKNAMES_UPLOADCSVDATATOTABLE),
                     req_headers = [(CASJOBSCONST_X_AUTH_TOKEN, tok)],
                     req_data = RawBytes csvData\<rparr>]"
  by (simp add: uploadCSVDataToTable_run [OF token_valid [OF assms(1,2)]] Let_def upload_url_def)

lemma uploadPandasDataFrameToTable_trace:
  assumes "getToken env = Some tok" "tok \<noteq> []"
  shows "trace (snd (uploadPandasDataFrameToTable env df tbl ctx s)) =
     trace s @ [Req \<lparr>req_method = POST,
                     req_url = upload_url env ctx tbl
                       (get_taskname env TASKNAMES_UPLOADPANDASDATAFRAMETOTABLE),
                     req_headers = [(CASJOBSCONST_X_AUTH_TOKEN, tok)],
                     req_data = RawBytes (encode env
                       (to_csv df (index_name df \<noteq> PyNone \<and> index_name df \<noteq> PyStr [])))\<rparr>]"
  by (simp add: uploadPandasDataFrameToTable_def bindM_def set_task_name_def Let_def
        uploadCSVDataToTable_trace [OF assms])


subsection \<open>The asynchronous batch\<close>

lemma send_all_run:
  "send_all env rs s =
     (Inr (map (\<lambda>(i, r). server env (length (requests (trace s)) + i) r) (enumerate 0 rs)),
      s\<lparr>trace := trace s @ map Req rs\<rparr>)"
proof (induction rs arbitrary: s)
  case Nil
  show ?case by (simp add: returnM_def)
next
  case (Cons r rs)
  have e: "map (\<lambda>(i, x). server env (Suc (length (requests (trace s)) + i)) x) (enumerate 0 rs) =
           map (\<lambda>(i, x). server env (length (requests (trace s)) + i) x) (enumerate (Suc 0) rs)"
    by (simp add: enumerate_Suc_eq case_prod_unfold o_def)
  show ?case
    by (simp add: Cons.IH io_defs e)
qed

lemma requests_map_Req [simp]: "requests (xs @ map Req rs) = requests xs @ rs"
  by (induction rs arbitrary: xs) (simp_all add: requests_append)

lemma collect_Inr_map:
  "collect xs = Inr ys \<Longrightarrow> xs = map Inr ys"
proof (induction xs arbitrary: ys)
  case Nil
  then show ?case by simp
next
  case (Cons x xs)
  then show ?case by (cases x) (auto split: sum.splits)
qed

lemma make_post_request_recv_JArr:
  "make_post_request_recv env resp = Inr j \<Longrightarrow> \<exists>xs. j = JArr xs"
  by (auto simp: make_post_request_recv_def bindE_def split: sum.splits)

lemma extend_rows_JArr: "extend_rows r (JArr xs # rest) = Inl TypeError"
  by (simp add: bindE_def)

lemma combined_never_returns:
  assumes "collect (map (make_post_request_recv env) resps) = Inr responses"
  shows "bindE (extend_rows [] responses) (\<lambda>r. bindE (first_columns responses) (f r)) =
           (if responses = [] then Inl IndexError else Inl TypeError)"
proof (cases responses)
  case Nil
  then show ?thesis by (simp add: bindE_def first_columns_def)
next
  case (Cons j js)
  from collect_Inr_map [OF assms] Cons obtain resp where "make_post_request_recv env resp = Inr j"
    by (cases resps) auto
  then obtain xs where "j = JArr xs"
    using make_post_request_recv_JArr by blast
  with Cons show ?thesis by (simp add: bindE_def)
qed

lemma get_headers_json:
  "get_headers tok (PyStr ''json'') =
     Inr [(CASJOBSCONST_X_AUTH_TOKEN, tok), (CASJOBSCONST_CONTENT_TYPE, CASJOBSCONST_CONTENT_JSON),
          (CASJOBSCONST_ACCEPT, ''application/json+array'')]"
  by (simp add: get_headers_def format_to_accept_header_def bindE_def
        CASJOBSCONST_X_AUTH_TOKEN_def CASJOBSCONST_CONTENT_TYPE_def CASJOBSCONST_ACCEPT_def)

lemma executeQueryAsync_combined_raises:
  assumes "fmt \<noteq> PyNone"
  shows "\<exists>e. fst (executeQueryAsync env sql ctx fmt s) = Inl e"
proof (cases "token env")
  case (Inl e)
  then show ?thesis by (simp add: executeQueryAsync_def io_defs Let_def)
next
  case (Inr tok)
  show ?thesis
  proof (cases "collect (map (make_post_request_recv env)
          (map (\<lambda>(i, r). server env (length (requests (trace s)) + i) r)
            (enumerate 0 (map (\<lambda>d. make_post_request_send
               (CasJobsRESTUri env @ ''/contexts/'' @ ctx @ ''/query'')
               [(CASJOBSCONST_X_AUTH_TOKEN, tok), (CASJOBSCONST_CONTENT_TYPE, CASJOBSCONST_CONTENT_JSON),
                (CASJOBSCONST_ACCEPT, ''application/json+array'')] d
               (get_taskname env TASKNAMES_EXECUTEQUERY))
               (case sql of Query q \<Rightarrow> [q] | Queries qs \<Rightarrow> qs)))))")
    case (Inl e)
    with Inr show ?thesis
      by (simp add: executeQueryAsync_def async_post_request_def send_all_run get_headers_json
            io_defs Let_def)
  next
    case r: (Inr responses)
    have "bindE (extend_rows [] responses) (\<lambda>r. bindE (first_columns responses)
             (\<lambda>cols. case pandas_DataFrame env (JArr r) cols of
                    None \<Rightarrow> Inl PandasError | Some df \<Rightarrow> Inr (Combined df))) =
           (if responses = [] then Inl IndexError else Inl TypeError)"
      by (rule combined_never_returns [OF r])
    with Inr r assms show ?thesis
      by (auto simp add: executeQueryAsync_def async_post_request_def send_all_run get_headers_json
            io_defs Let_def bindE_def split: sum.splits)
  qed
qed

lemma executeQueryAsync_in_order:
  assumes "getToken env = Some tok" "tok \<noteq> []"
  shows "executeQueryAsync env (Queries qs) ctx PyNone s =
     (let reqs = map (\<lambda>d. make_post_request_send
                   (CasJobsRESTUri env @ ''/contexts/'' @ ctx @ ''/query'')
                   [(CASJOBSCONST_X_AUTH_TOKEN, tok), (CASJOBSCONST_CONTENT_TYPE, CASJOBSCONST_CONTENT_JSON),
                    (CASJOBSCONST_ACCEPT, ''application/json+array'')] d
                   (get_taskname env TASKNAMES_EXECUTEQUERY)) qs;
          resps = map (\<lambda>(i, r). server env (length (requests (trace s)) + i) r) (enumerate 0 reqs)
      in (case collect (map (make_post_request_recv env) resps) of
            Inl e \<Rightarrow> Inl e | Inr responses \<Rightarrow> Inr (Responses responses),
          s\<lparr>trace := trace s @ map Req reqs\<rparr>))"
  by (simp add: executeQueryAsync_def async_post_request_def send_all_run get_headers_json
        token_valid [OF assms] io_defs Let_def split: sum.splits)

subsection \<open>The polling loop\<close>

lemma emit_snd [simp]: "snd (emit e s) = s\<lparr>trace := trace s @ [e]\<rparr>"
  by (simp add: emit_def)

lemma get_headers_None:
  "get_headers tok PyNone =
     Inr [(CASJOBSCONST_X_AUTH_TOKEN, tok), (CASJOBSCONST_CONTENT_TYPE, CASJOBSCONST_CONTENT_JSON)]"
  by (simp add: get_headers_def)

lemma getJobStatus_run:
  assumes "token env = Inr tok"
  shows "getJobStatus env jobId s =
           (poll env jobId tok (length (requests (trace s))),
            s\<lparr>trace := trace s @ [Req (poll_request env jobId tok)]\<rparr>)"
  using assms
  by (simp add: getJobStatus_def response_get_def io_defs url_dict_get_simps get_headers_None
        poll_def poll_request_def Let_def bindE_def split: sum.splits)

lemma getJobStatus_no_token:
  assumes "token env = Inl e"
  shows "getJobStatus env jobId s = (Inl e, s)"
  using assms by (simp add: getJobStatus_def io_defs url_dict_get_simps Let_def)

lemma requests_waiting [simp]: "requests (waiting v) = []"
  by (simp add: waiting_def)

lemma loop_step_state:
  "(if verbose then snd (emit (Print waitingStr) s) else s) = s\<lparr>trace := trace s @ waiting verbose\<rparr>"
  by (simp add: waiting_def)

lemma loop_Suc:
  assumes "token env = Inr tok"
  shows "waitForJob_loop (Suc fuel) env jobId verbose p s =
     (case poll env jobId tok (length (requests (trace s))) of
        Inl e \<Rightarrow> Some (Inl e, s\<lparr>trace := trace s @ waiting verbose @ [Req (poll_request env jobId tok)]\<rparr>)
      | Inr d \<Rightarrow>
         (case job_status env d of
            Inl e \<Rightarrow> Some (Inl e, s\<lparr>trace := trace s @ waiting verbose @ [Req (poll_request env jobId tok)]\<rparr>)
          | Inr st \<Rightarrow>
              if terminal st
              then Some (Inr d, s\<lparr>trace := trace s @ waiting verbose @ [Req (poll_request env jobId tok)]
                                    @ (if verbose then [Print (''Done!'' @ [CHR 0x0A])] else [])\<rparr>)
              else waitForJob_loop fuel env jobId verbose p
                     (s\<lparr>trace := trace s @ waiting verbose
                                  @ [Req (poll_request env jobId tok), Sleep (max p 5)]\<rparr>)))"
  by (simp add: waitForJob_loop.simps(2) loop_step_state getJobStatus_run [OF assms]
        job_status_def terminal_def minPollTime_def max.commute requests_append
        split: sum.splits)

declare waitForJob_loop.simps(2) [simp del]

lemma loop_running:
  assumes tok: "token env = Inr tok"
  shows "\<lbrakk>\<forall>i<n. \<exists>st. polled_status env jobId tok (length (requests (trace s)) + i) = Inr st \<and> \<not> terminal st;
          poll env jobId tok (length (requests (trace s)) + n) = Inr d;
          job_status env d = Inr st; terminal st\<rbrakk>
     \<Longrightarrow> waitForJob_loop (Suc (n + m)) env jobId verbose p s =
          Some (Inr d, s\<lparr>trace := trace s
                  @ concat (replicate n (waiting verbose @ [Req (poll_request env jobId tok), Sleep (max p 5)]))
                  @ waiting verbose @ [Req (poll_request env jobId tok)]
                  @ (if verbose then [Print (''Done!'' @ [CHR 0x0A])] else [])\<rparr>)"
proof (induction n arbitrary: s)
  case 0
  then show ?case by (simp add: loop_Suc [OF tok])
next
  case (Suc n)
  let ?s = "s\<lparr>trace := trace s @ waiting verbose
                  @ [Req (poll_request env jobId tok), Sleep (max p 5)]\<rparr>"
  from Suc.prems(1) obtain st0 where
    st0: "polled_status env jobId tok (length (requests (trace s))) = Inr st0" "\<not> terminal st0"
    by force
  then obtain d0 where d0: "poll env jobId tok (length (requests (trace s))) = Inr d0"
    "job_status env d0 = Inr st0"
    by (auto simp: polled_status_def bindE_def split: sum.splits)
  have a: "\<forall>i<n. \<exists>st. polled_status env jobId tok (length (requests (trace ?s)) + i) = Inr st \<and> \<not> terminal st"
  proof (intro allI impI)
    fix i assume "i < n"
    then have "Suc i < Suc n" by simp
    with Suc.prems(1) have "\<exists>st. polled_status env jobId tok (length (requests (trace s)) + Suc i) = Inr st \<and> \<not> terminal st"
      by blast
    then show "\<exists>st. polled_status env jobId tok (length (requests (trace ?s)) + i) = Inr st \<and> \<not> terminal st"
      by (simp add: requests_append)
  qed
  have b: "poll env jobId tok (length (requests (trace ?s)) + n) = Inr d"
    using Suc.prems(2) by (simp add: requests_append)
  have step: "waitForJob_loop (Suc (Suc n + m)) env jobId verbose p s =
        waitForJob_loop (Suc (n + m)) env jobId verbose p ?s"
    using d0 st0(2) by (simp add: loop_Suc [OF tok, of "Suc (n + m)"])
  show ?case
    unfolding step Suc.IH [OF a b Suc.prems(3) Suc.prems(4)]
    by simp
qed

lemma loop_None:
  assumes tok: "token env = Inr tok"
  shows "\<lbrakk>\<forall>i<n. \<exists>st. polled_status env jobId tok (length (requests (trace s)) + i) = Inr st \<and> \<not> terminal st;
          fuel \<le> n\<rbrakk>
     \<Longrightarrow> waitForJob_loop fuel env jobId verbose p s = None"
proof (induction fuel arbitrary: s n)
  case 0
  show ?case by simp
next
  case (Suc fuel)
  then obtain n' where n: "n = Suc n'" by (cases n) auto
  let ?s = "s\<lparr>trace := trace s @ waiting verbose
                  @ [Req (poll_request env jobId tok), Sleep (max p 5)]\<rparr>"
  from Suc.prems(1) n obtain st0 where
    st0: "polled_status env jobId tok (length (requests (trace s))) = Inr st0" "\<not> terminal st0"
    by force
  then obtain d0 where d0: "poll env jobId tok (length (requests (trace s))) = Inr d0"
    "job_status env d0 = Inr st0"
    by (auto simp: polled_status_def bindE_def split: sum.splits)
  have a: "\<forall>i<n'. \<exists>st. polled_status env jobId tok (length (requests (trace ?s)) + i) = Inr st \<and> \<not> terminal st"
  proof (intro allI impI)
    fix i assume "i < n'"
    then have "Suc i < n" using n by simp
    with Suc.prems(1) have "\<exists>st. polled_status env jobId tok (length (requests (trace s)) + Suc i) = Inr st \<and> \<not> terminal st"
      by blast
    then show "\<exists>st. polled_status env jobId tok (length (requests (trace ?s)) + i) = Inr st \<and> \<not> terminal st"
      by (simp add: requests_append)
  qed
  have "waitForJob_loop (Suc fuel) env jobId verbose p s = waitForJob_loop fuel env jobId verbose p ?s"
    using d0 st0(2) by (simp add: loop_Suc [OF tok])
  also have "\<dots> = None"
    using Suc.IH [OF a] Suc.prems(2) n by simp
  finally show ?case .
qed

lemma loop_returns_terminal:
  "waitForJob_loop fuel env jobId verbose p s = Some (Inr d, s') \<Longrightarrow>
     \<exists>st. job_status env d = Inr st \<and> terminal st"
proof (induction fuel arbitrary: s)
  case 0
  then show ?case by simp
next
  case (Suc fuel)
  then show ?case
    by (auto simp: waitForJob_loop.simps(2) job_status_def terminal_def Let_def
             split: prod.splits sum.splits if_splits)
qed

lemma sleeps_append: "sleeps (xs @ ys) = sleeps xs @ sleeps ys"
  by (induction xs rule: sleeps.induct) simp_all

lemma sleeps_waiting [simp]: "sleeps (waiting v) = []"
  by (simp add: waiting_def)

lemma sleeps_rounds:
  "sleeps (concat (replicate n (waiting v @ [Req q, Sleep d]))) = replicate n d"
  by (induction n) (simp_all add: sleeps_append)

lemma requests_rounds:
  "requests (concat (replicate n (waiting v @ [Req q, Sleep d]))) = replicate n q"
  by (induction n) (simp_all add: requests_append)

lemma sleeps_wait_events: "sleeps (wait_events v p q n) = replicate n (max p 5)"
  by (simp add: wait_events_def sleeps_append sleeps_rounds)

lemma requests_wait_events: "requests (wait_events v p q n) = replicate (Suc n) q"
  by (simp add: wait_events_def requests_append requests_rounds replicate_append_same)

lemma waitForJob_loop_eq:
  "waitForJob fuel env jobId verbose p s =
     waitForJob_loop fuel env jobId verbose p (s\<lparr>trace := trace s @ waiting verbose\<rparr>)"
  by (simp add: waitForJob_def waiting_def)

lemma waitForJob_scenario:
  assumes "getToken env = Some tok" "tok \<noteq> []"
    and "\<forall>i<n. \<exists>st. polled_status env jobId tok (length (requests (trace s)) + i) = Inr st \<and> \<not> terminal st"
    and "poll env jobId tok (length (requests (trace s)) + n) = Inr d"
    and "job_status env d = Inr st" and "terminal st"
  shows "n < fuel \<Longrightarrow> waitForJob fuel env jobId verbose p s =
           Some (Inr d, s\<lparr>trace := trace s @ wait_events verbose p (poll_request env jobId tok) n\<rparr>)"
    and "fuel \<le> n \<Longrightarrow> waitForJob fuel env jobId verbose p s = None"
proof -
  note tok = token_valid [OF assms(1,2)]
  let ?s = "s\<lparr>trace := trace s @ waiting verbose\<rparr>"
  have a: "\<forall>i<n. \<exists>st. polled_status env jobId tok (length (requests (trace ?s)) + i) = Inr st \<and> \<not> terminal st"
    using assms(3) by (simp add: requests_append)
  have b: "poll env jobId tok (length (requests (trace ?s)) + n) = Inr d"
    using assms(4) by (simp add: requests_append)
  show "waitForJob fuel env jobId verbose p s =
           Some (Inr d, s\<lparr>trace := trace s @ wait_events verbose p (poll_request env jobId tok) n\<rparr>)"
    if "n < fuel"
  proof -
    from that obtain m where m: "fuel = Suc (n + m)"
      using less_imp_Suc_add by blast
    show ?thesis
      unfolding waitForJob_loop_eq m loop_running [OF tok a b assms(5,6)]
      by (simp add: wait_events_def)
  qed
  show "waitForJob fuel env jobId verbose p s = None" if "fuel \<le> n"
    unfolding waitForJob_loop_eq by (rule loop_None [OF tok a that])
qed

lemma loop_sleeps:
  "waitForJob_loop fuel env jobId verbose p s = Some (r, s') \<Longrightarrow>
     \<exists>evs. trace s' = trace s @ evs \<and> set (sleeps evs) \<subseteq> {max p 5}"
proof (induction fuel arbitrary: s)
  case 0
  then show ?case by simp
next
  case (Suc fuel)
  show ?case
  proof (cases "token env")
    case (Inl e)
    with Suc.prems have "s' = s\<lparr>trace := trace s @ waiting verbose\<rparr>"
      by (auto simp: waitForJob_loop.simps(2) loop_step_state getJobStatus_no_token)
    then have "trace s' = trace s @ waiting verbose \<and> set (sleeps (waiting verbose)) \<subseteq> {max p 5}"
      by simp
    then show ?thesis by blast
  next
    case (Inr tok)
    let ?q = "poll_request env jobId tok"
    let ?s = "s\<lparr>trace := trace s @ waiting verbose @ [Req ?q, Sleep (max p 5)]\<rparr>"
    consider (stop) evs where "trace s' = trace s @ evs" "sleeps evs = []"
      | (continue) "waitForJob_loop fuel env jobId verbose p ?s = Some (r, s')"
      using Suc.prems
      by (auto simp: loop_Suc [OF Inr] sleeps_append split: sum.splits if_splits)
    then show ?thesis
    proof cases
      case stop
      then have "trace s' = trace s @ evs \<and> set (sleeps evs) \<subseteq> {max p 5}" by simp
      then show ?thesis by blast
    next
      case continue
      from Suc.IH [OF this] obtain evs where
        evs: "trace s' = trace ?s @ evs" "set (sleeps evs) \<subseteq> {max p 5}"
        by blast
      then have "trace s' = trace s @ (waiting verbose @ [Req ?q, Sleep (max p 5)] @ evs) \<and>
                 set (sleeps (waiting verbose @ [Req ?q, Sleep (max p 5)] @ evs)) \<subseteq> {max p 5}"
        by (simp add: sleeps_append)
      then show ?thesis by blast
    qed
  qed
qed

lemma waitForJob_sleeps:
  assumes "waitForJob fuel env jobId verbose p s = Some (r, s')"
  shows "\<exists>evs. trace s' = trace s @ evs \<and> set (sleeps evs) \<subseteq> {max p 5}"
proof -
  from assms loop_sleeps obtain evs where
    "trace s' = trace (s\<lparr>trace := trace s @ waiting verbose\<rparr>) @ evs" "set (sleeps evs) \<subseteq> {max p 5}"
    unfolding waitForJob_loop_eq by blast
  then have "trace s' = trace s @ (waiting verbose @ evs) \<and>
             set (sleeps (waiting verbose @ evs)) \<subseteq> {max p 5}"
    by (simp add: sleeps_append)
  then show ?thesis by blast
qed

lemma waitForJob_returns_terminal:
  "waitForJob fuel env jobId verbose p s = Some (Inr d, s') \<Longrightarrow>
     \<exists>st. job_status env d = Inr st \<and> terminal st"
  unfolding waitForJob_loop_eq by (rule loop_returns_terminal)

subsection \<open>Requests and errors of the operations\<close>

lemma safeI:
  assumes "\<And>s. \<exists>rs. requests (trace (snd (m s))) = requests (trace s) @ rs \<and> list_all P rs"
    and "\<And>s e. fst (m s) = Inl e \<Longrightarrow> E e"
  shows "safe P E m"
  using assms by (simp add: safe_def)

lemma safe_returnM: "safe P E (returnM x)"
  by (simp add: safe_def returnM_def)

lemma safe_liftE: "(\<And>e. r = Inl e \<Longrightarrow> E e) \<Longrightarrow> safe P E (liftE r)"
  by (simp add: safe_def liftE_def)

lemma safe_emit: "requests [e] = [] \<Longrightarrow> safe P E (emit e)"
  by (simp add: safe_def emit_def requests_append)

lemma safe_set_task_name: "safe P E (set_task_name v)"
  by (simp add: safe_def set_task_name_def)

lemma safe_take_task_name: "safe P E (take_task_name env operation)"
  by (simp add: safe_def take_task_name_def split: option.splits)

lemma safe_http: "P r \<Longrightarrow> safe P E (http env r)"
  by (simp add: safe_def http_def)

lemma safe_bindM:
  assumes m: "safe P E m" and f: "\<And>x. safe P E (f x)"
  shows "safe P E (bindM m f)"
proof (rule safeI)
  fix s
  obtain r s1 where ms: "m s = (r, s1)" by (cases "m s")
  from m obtain rs where rs: "requests (trace s1) = requests (trace s) @ rs" "list_all P rs"
    using ms unfolding safe_def by (metis snd_conv)
  show "\<exists>rs. requests (trace (snd (bindM m f s))) = requests (trace s) @ rs \<and> list_all P rs"
  proof (cases r)
    case (Inl e)
    with ms rs show ?thesis by (simp add: bindM_def)
  next
    case (Inr x)
    from f [of x] obtain rs' where
      "requests (trace (snd (f x s1))) = requests (trace s1) @ rs'" "list_all P rs'"
      unfolding safe_def by blast
    with rs have "requests (trace (snd (f x s1))) = requests (trace s) @ (rs @ rs') \<and>
                  list_all P (rs @ rs')"
      by simp
    with ms Inr show ?thesis unfolding bindM_def by (simp del: append_assoc)
  qed
next
  fix s e
  assume a: "fst (bindM m f s) = Inl e"
  obtain r s1 where ms: "m s = (r, s1)" by (cases "m s")
  show "E e"
  proof (cases r)
    case (Inl e')
    with ms a have "e' = e" by (simp add: bindM_def)
    with m ms Inl show ?thesis unfolding safe_def by (metis fst_conv)
  next
    case (Inr x)
    with ms a have "fst (f x s1) = Inl e" by (simp add: bindM_def)
    with f [of x] show ?thesis unfolding safe_def by blast
  qed
qed

lemma safe_bind_liftE:
  assumes "\<And>e. r = Inl e \<Longrightarrow> E e" and "\<And>x. r = Inr x \<Longrightarrow> safe P E (f x)"
  shows "safe P E (bindM (liftE r) f)"
proof (cases r)
  case (Inl e)
  then have "bindM (liftE r) f = liftE (Inl e)"
    by (simp add: bindM_def liftE_def)
  moreover have "safe P E (liftE (Inl e) :: 'b io)"
    using assms(1) [OF Inl] by (simp add: safe_def liftE_def)
  ultimately show ?thesis by simp
next
  case (Inr x)
  then have "bindM (liftE r) f = f x"
    by (simp add: bindM_def liftE_def)
  with assms(2) [OF Inr] show ?thesis by simp
qed

lemma bindM_liftE_Inr [simp]: "bindM (liftE (Inr x)) f = f x"
  by (simp add: bindM_def liftE_def)

lemma take1_login: "take 1 EXCEPT_LOGIN_ERROR = ''U''"
  by (simp add: EXCEPT_LOGIN_ERROR_def)

lemma not_login_if_E: "take 1 msg = ''E'' \<Longrightarrow> ValueError msg \<noteq> login_error"
  using take1_login by (auto simp: login_error_def)

lemma no_ValueError_not_login: "(\<And>msg. r \<noteq> Inl (ValueError msg)) \<Longrightarrow> r = Inl e \<Longrightarrow> e \<noteq> login_error"
  by (auto simp: login_error_def)

lemma take1_http_error_message:
  "take 1 on_error = ''E'' \<Longrightarrow> take 1 (http_error_message on_error code body) = ''E''"
  by (cases on_error) (simp_all add: http_error_message_def)

lemma validate_not_login:
  assumes "take 1 on_error = ''E''" and "validate_response_status env resp on_error = Inl e"
  shows "e \<noteq> login_error"
proof (cases "decode env (content resp)")
  case None
  with assms(2) show ?thesis
    by (simp add: validate_response_status_eq login_error_def split: if_splits)
next
  case (Some body)
  with assms(2) have "e = ValueError (http_error_message on_error (status_code resp) body)"
    by (simp add: validate_response_status_eq split: if_splits)
  with take1_http_error_message [OF assms(1)] show ?thesis
    by (simp add: not_login_if_E)
qed

lemma on_error_starts:
  "take 1 EXCEPT_SCHEMA_ERROR = ''E''"
  "take 1 EXCEPT_EXECUTE_QUERY_ERROR = ''E''"
  "take 1 EXCEPT_SUMBIT_JOB_ERROR = ''E''"
  "take 1 (replace EXCEPT_GET_TABLE_ERROR DCONST_CONTEXT_ID ctx) = ''E''"
  "take 1 (replace EXCEPT_GET_JOB_STATUS_ERROR DCONST_JOB_ID j) = ''E''"
  "take 1 (replace EXCEPT_CANCEL_JOB_ERROR DCONST_JOB_ID j) = ''E''"
  "take 1 (replace EXCEPT_UPLOAD_CSV_ERROR DCONST_TABLENAME_ID tbl) = ''E''"
  by (simp_all add: EXCEPT_SCHEMA_ERROR_def EXCEPT_EXECUTE_QUERY_ERROR_def EXCEPT_SUMBIT_JOB_ERROR_def
        EXCEPT_GET_TABLE_ERROR_def EXCEPT_GET_JOB_STATUS_ERROR_def EXCEPT_CANCEL_JOB_ERROR_def
        EXCEPT_UPLOAD_CSV_ERROR_def join_str_def DCONST_CONTEXT_ID_def DCONST_JOB_ID_def
        DCONST_TABLENAME_ID_def)

lemma illegal_format_not_login: "illegal_format fmt \<noteq> login_error"
  by (simp add: illegal_format_def not_login_if_E EXCEPT_ILLEGAL_FORMAT_ERROR_def join_str_def)

lemma format_to_accept_header_cases:
  "format_to_accept_header fmt = Inl (illegal_format fmt) \<or>
   (\<exists>a \<in> set accept_types. format_to_accept_header fmt = Inr a)"
  by (simp add: format_to_accept_header_def illegal_format_def accept_types_def)

lemma AList_update_accept:
  "AList.update CASJOBSCONST_ACCEPT a (base_headers tok) = base_headers tok @ [(CASJOBSCONST_ACCEPT, a)]"
  by (simp add: base_headers_def CASJOBSCONST_ACCEPT_def CASJOBSCONST_X_AUTH_TOKEN_def
        CASJOBSCONST_CONTENT_TYPE_def)

lemma get_headers_eq:
  "get_headers tok fmt =
     (if fmt \<noteq> PyNone
      then (case format_to_accept_header fmt of
              Inl e \<Rightarrow> Inl e
            | Inr a \<Rightarrow> Inr (base_headers tok @ [(CASJOBSCONST_ACCEPT, a)]))
      else Inr (base_headers tok))"
  by (simp add: get_headers_def Let_def bindE_def base_headers_def CASJOBSCONST_ACCEPT_def
        CASJOBSCONST_X_AUTH_TOKEN_def CASJOBSCONST_CONTENT_TYPE_def split: sum.splits)

lemma get_headers_cases:
  "get_headers tok fmt = Inl (illegal_format fmt) \<or>
   get_headers tok fmt = Inr (base_headers tok) \<or>
   (\<exists>a \<in> set accept_types. get_headers tok fmt = Inr (base_headers tok @ [(CASJOBSCONST_ACCEPT, a)]))"
proof (cases "fmt = PyNone")
  case True
  then show ?thesis by (simp add: get_headers_eq)
next
  case False
  from format_to_accept_header_cases [of fmt] show ?thesis
  proof
    assume "format_to_accept_header fmt = Inl (illegal_format fmt)"
    with False show ?thesis by (simp add: get_headers_eq)
  next
    assume "\<exists>a \<in> set accept_types. format_to_accept_header fmt = Inr a"
    then obtain a where "a \<in> set accept_types" "format_to_accept_header fmt = Inr a"
      by blast
    with False have "a \<in> set accept_types \<and>
        get_headers tok fmt = Inr (base_headers tok @ [(CASJOBSCONST_ACCEPT, a)])"
      by (simp add: get_headers_eq)
    then show ?thesis by blast
  qed
qed

lemma get_headers_not_login: "get_headers tok fmt = Inl e \<Longrightarrow> e \<noteq> login_error"
  using get_headers_cases [of tok fmt] illegal_format_not_login by auto

lemma get_headers_Inr:
  "get_headers tok fmt = Inr hs \<Longrightarrow>
     hs \<in> set (base_headers tok # map (\<lambda>a. base_headers tok @ [(CASJOBSCONST_ACCEPT, a)]) accept_types)"
  using get_headers_cases [of tok fmt] by auto

lemma parse_post_not_login: "parse_post env resp fmt = Inl e \<Longrightarrow> e \<noteq> login_error"
proof (cases "fmt \<in> set recognized_formats")
  case True
  assume "parse_post env resp fmt = Inl e"
  with parse_post_recognized [OF True] show ?thesis
    by (auto simp: login_error_def)
next
  case False
  assume "parse_post env resp fmt = Inl e"
  with unrecognized_format_raises [OF False, of env resp] show ?thesis
    by (simp add: illegal_format_not_login)
qed

lemma headers_ok_query:
  "get_headers tok fmt = Inr hs \<Longrightarrow>
     headers_ok tok \<lparr>req_method = POST, req_url = u, req_headers = hs,
                       req_data = format_data sql t\<rparr>"
  using get_headers_Inr [of tok fmt hs] by (simp add: headers_ok_def format_data_def)

lemma executeQuery_safe:
  assumes tok: "token env = Inr tok"
  shows "safe (headers_ok tok) (\<lambda>e. e \<noteq> login_error) (executeQuery env sql ctx fmt)"
  unfolding executeQuery_def
  apply (rule safe_bindM [OF safe_take_task_name])
  apply (simp add: url_dict_get_simps tok)
  apply (rule safe_bind_liftE)
   apply (erule get_headers_not_login)
  apply (rule safe_bindM)
   apply (rule safe_http)
   apply (erule headers_ok_query)
  apply (rule safe_bind_liftE)
   apply (erule validate_not_login [OF on_error_starts(2)])
  apply (rule safe_liftE)
  apply (erule parse_post_not_login)
  done

lemma headers_ok_simps:
  "headers_ok tok \<lparr>req_method = GET, req_url = u, req_headers = base_headers tok, req_data = d\<rparr>"
  "headers_ok tok \<lparr>req_method = DELETE, req_url = u, req_headers = base_headers tok, req_data = d\<rparr>"
  "headers_ok tok \<lparr>req_method = PUT, req_url = u,
     req_headers = base_headers tok @ [(CASJOBSCONST_ACCEPT, ''text/plain'')], req_data = d\<rparr>"
  "headers_ok tok \<lparr>req_method = POST, req_url = u,
     req_headers = [(CASJOBSCONST_X_AUTH_TOKEN, tok)], req_data = RawBytes b\<rparr>"
  by (simp_all add: headers_ok_def)

lemma headers_ok_token:
  "headers_ok tok r \<Longrightarrow> map_of (req_headers r) CASJOBSCONST_X_AUTH_TOKEN = Some tok"
  by (auto simp: headers_ok_def base_headers_def accept_types_def
           split: http_method.splits payload.splits)

lemma headers_ok_content_type:
  "headers_ok tok r \<Longrightarrow>
     req_method r = POST \<and> (\<exists>b. req_data r = RawBytes b) \<or>
     map_of (req_headers r) CASJOBSCONST_CONTENT_TYPE = Some CASJOBSCONST_CONTENT_JSON"
  by (auto simp: headers_ok_def base_headers_def accept_types_def CASJOBSCONST_X_AUTH_TOKEN_def
           CASJOBSCONST_CONTENT_TYPE_def CASJOBSCONST_ACCEPT_def
           split: http_method.splits payload.splits)

lemma get_headers_readable:
  "get_headers tok (PyStr ''readable'') = Inr (base_headers tok @ [(CASJOBSCONST_ACCEPT, ''text/plain'')])"
  by (simp add: get_headers_eq format_to_accept_header_def)

lemma get_headers_json':
  "get_headers tok (PyStr ''json'') =
     Inr (base_headers tok @ [(CASJOBSCONST_ACCEPT, ''application/json+array'')])"
  by (simp add: get_headers_eq format_to_accept_header_def)

lemma response_to_json_not_login: "response_to_json env resp = Inl e \<Longrightarrow> e \<noteq> login_error"
  using response_to_json_no_ValueError by (auto simp: login_error_def)

lemma getitem_not_login: "getitem j k = Inl e \<Longrightarrow> e \<noteq> login_error"
  using getitem_no_ValueError by (auto simp: login_error_def)

lemma response_get_safe:
  assumes "take 1 on_error = ''E''"
  shows "safe (headers_ok tok) (\<lambda>e. e \<noteq> login_error) (response_get env u tok on_error)"
  unfolding response_get_def
  apply (simp add: get_headers_eq)
  apply (rule safe_bindM)
   apply (rule safe_http)
   apply (rule headers_ok_simps)
  apply (rule safe_bind_liftE)
   apply (erule validate_not_login [OF assms])
  apply (rule safe_liftE)
  apply (erule response_to_json_not_login)
  done

lemma getSchemaName_safe:
  assumes tok: "token env = Inr tok"
  shows "safe (headers_ok tok) (\<lambda>e. e \<noteq> login_error) (getSchemaName env)"
  unfolding getSchemaName_def
  apply (simp add: url_dict_get_simps tok)
  apply (rule safe_bind_liftE)
   apply (simp add: login_error_def split: option.splits)
  apply (rule safe_bindM)
   apply (rule response_get_safe [OF on_error_starts(1)])
  apply (rule safe_bind_liftE)
   apply (erule getitem_not_login)
  apply (rule safe_returnM)
  done

lemma getTables_safe:
  assumes tok: "token env = Inr tok"
  shows "safe (headers_ok tok) (\<lambda>e. e \<noteq> login_error) (getTables env ctx)"
  unfolding getTables_def
  apply (simp add: url_dict_get_simps tok)
  apply (rule response_get_safe [OF on_error_starts(4)])
  done

lemma getJobStatus_safe:
  assumes tok: "token env = Inr tok"
  shows "safe (headers_ok tok) (\<lambda>e. e \<noteq> login_error) (getJobStatus env jobId)"
  unfolding getJobStatus_def
  apply (simp add: url_dict_get_simps tok Let_def)
  apply (rule response_get_safe [OF on_error_starts(5)])
  done

lemma cancelJob_safe:
  assumes tok: "token env = Inr tok"
  shows "safe (headers_ok tok) (\<lambda>e. e \<noteq> login_error) (cancelJob env jobId)"
  unfolding cancelJob_def
  apply (simp add: url_dict_get_simps tok Let_def get_headers_eq)
  apply (rule safe_bindM)
   apply (rule safe_http)
   apply (rule headers_ok_simps)
  apply (rule safe_bind_liftE)
   apply (erule validate_not_login [OF on_error_starts(6)])
  apply (rule safe_returnM)
  done

lemma int_of_json_not_login: "int_of_json env j = Inl e \<Longrightarrow> e \<noteq> login_error"
  by (cases j) (auto simp: login_error_def EXCEPT_LOGIN_ERROR_def split: option.splits)

lemma content_decode_not_login: "content_decode env resp = Inl e \<Longrightarrow> e \<noteq> login_error"
  using content_decode_no_ValueError by (auto simp: login_error_def)

lemma submitJob_safe:
  assumes tok: "token env = Inr tok"
  shows "safe (headers_ok tok) (\<lambda>e. e \<noteq> login_error) (submitJob env sql ctx)"
  unfolding submitJob_def
  apply (simp add: url_dict_get_simps tok get_headers_readable)
  apply (rule safe_bindM)
   apply (rule safe_http)
   apply (rule headers_ok_simps)
  apply (rule safe_bind_liftE)
   apply (erule validate_not_login [OF on_error_starts(3)])
  apply (rule safe_bind_liftE)
   apply (erule content_decode_not_login)
  apply (rule safe_liftE)
  apply (auto simp: login_error_def EXCEPT_LOGIN_ERROR_def split: option.splits)
  done

lemma uploadCSVDataToTable_safe:
  assumes tok: "token env = Inr tok"
  shows "safe (headers_ok tok) (\<lambda>e. e \<noteq> login_error) (uploadCSVDataToTable env csvData tbl ctx)"
  unfolding uploadCSVDataToTable_def
  apply (rule safe_bindM [OF safe_take_task_name])
  apply (simp add: url_dict_get_simps tok)
  apply (rule safe_bindM)
   apply (rule safe_http)
   apply (rule headers_ok_simps)
  apply (rule safe_bind_liftE)
   apply (erule validate_not_login [OF on_error_starts(7)])
  apply (rule safe_returnM)
  done

lemma uploadPandasDataFrameToTable_safe:
  assumes tok: "token env = Inr tok"
  shows "safe (headers_ok tok) (\<lambda>e. e \<noteq> login_error)
           (uploadPandasDataFrameToTable env df tbl ctx)"
  unfolding uploadPandasDataFrameToTable_def Let_def
  apply (rule safe_bindM [OF safe_set_task_name])
  apply (rule uploadCSVDataToTable_safe [OF tok])
  done

lemma writeFitsFileFromQuery_safe:
  assumes tok: "token env = Inr tok"
  shows "safe (headers_ok tok) (\<lambda>e. e \<noteq> login_error)
           (writeFitsFileFromQuery env fileName q ctx)"
  unfolding writeFitsFileFromQuery_def
  apply (rule safe_bindM [OF safe_set_task_name])
  apply (rule safe_bindM [OF executeQuery_safe [OF tok]])
  apply (rule safe_bind_liftE)
   apply (simp add: read_bytes_def login_error_def split: parsed.splits)
  apply (rule safe_bindM)
   apply (rule safe_emit)
   apply simp
  apply (rule safe_returnM)
  done

lemma getPandasDataFrameFromQuery_safe:
  assumes tok: "token env = Inr tok"
  shows "safe (headers_ok tok) (\<lambda>e. e \<noteq> login_error)
           (getPandasDataFrameFromQuery env q ctx)"
  unfolding getPandasDataFrameFromQuery_def
  apply (rule safe_bindM [OF safe_set_task_name])
  apply (rule safe_bindM [OF executeQuery_safe [OF tok]])
  apply (rule safe_liftE)
  apply (simp add: pandas_read_csv_def login_error_def split: parsed.splits option.splits)
  done

lemma getNumpyArrayFromQuery_safe:
  assumes tok: "token env = Inr tok"
  shows "safe (headers_ok tok) (\<lambda>e. e \<noteq> login_error)
           (getNumpyArrayFromQuery env q ctx)"
  unfolding getNumpyArrayFromQuery_def
  apply (rule safe_bindM [OF safe_set_task_name])
  apply (rule safe_bindM [OF getPandasDataFrameFromQuery_safe [OF tok]])
  apply (rule safe_liftE)
  apply (simp add: login_error_def split: option.splits)
  done

lemma safe_send_all: "list_all P rs \<Longrightarrow> safe P E (send_all env rs)"
proof (induction rs)
  case Nil
  show ?case by (simp add: safe_returnM)
next
  case (Cons r rs)
  then show ?case
    by (auto intro!: safe_bindM safe_http safe_returnM)
qed

lemma collect_not_error:
  "(\<And>x. x \<in> set rs \<Longrightarrow> x \<noteq> Inl e) \<Longrightarrow> collect rs \<noteq> Inl e"
proof (induction rs)
  case Nil
  show ?case by simp
next
  case (Cons r rs)
  then show ?case by (cases r) (auto split: sum.splits)
qed

lemma bindE_not_login:
  assumes "bindE m f = Inl e" and "\<And>e'. m = Inl e' \<Longrightarrow> e' \<noteq> login_error"
    and "\<And>x e'. m = Inr x \<Longrightarrow> f x = Inl e' \<Longrightarrow> e' \<noteq> login_error"
  shows "e \<noteq> login_error"
  using assms by (cases m) (auto simp: bindE_def)

lemma iter_not_login: "iter j = Inl e \<Longrightarrow> e \<noteq> login_error"
  using iter_no_ValueError by (auto simp: login_error_def)

lemma getitem0_not_login: "getitem0 j = Inl e \<Longrightarrow> e \<noteq> login_error"
  using getitem0_no_ValueError by (auto simp: login_error_def)

lemma columns_data_not_login: "columns_data r \<noteq> Inl login_error"
  by (auto simp: columns_data_def login_error_def getitem_no_ValueError dest!: bindE_ValueError)

lemma make_post_request_recv_not_login: "make_post_request_recv env resp \<noteq> Inl login_error"
proof
  assume a: "make_post_request_recv env resp = Inl login_error"
  have c: "collect (map columns_data items) \<noteq> Inl login_error" for items
    by (rule collect_not_error) (auto simp: columns_data_not_login)
  have v: "async_validate_response_status env resp \<noteq> Inl login_error"
    using validate_not_login [OF on_error_starts(2), of env resp login_error]
    by (auto simp: async_validate_response_status_eq)
  from a v c show False
    unfolding make_post_request_recv_def
    by (auto simp: bindE_def split: sum.splits
             dest: response_to_json_not_login getitem_not_login iter_not_login)
qed

lemma extend_rows_not_login: "extend_rows r responses \<noteq> Inl login_error"
proof (induction responses arbitrary: r)
  case Nil
  show ?case by simp
next
  case (Cons j js)
  show ?case
    using Cons.IH
    by (auto simp: bindE_def split: sum.splits
             dest: getitem_not_login getitem0_not_login iter_not_login)
qed

lemma first_columns_not_login: "first_columns responses \<noteq> Inl login_error"
  by (auto simp: first_columns_def bindE_def login_error_def split: list.splits sum.splits
           dest: getitem_not_login [unfolded login_error_def]
                 getitem0_not_login [unfolded login_error_def])

lemma headers_ok_async:
  "list_all (headers_ok tok)
     (map (\<lambda>d. make_post_request_send u
                 (base_headers tok @ [(CASJOBSCONST_ACCEPT, ''application/json+array'')]) d t) datas)"
  by (simp add: list_all_iff make_post_request_send_def headers_ok_def format_data_def
        accept_types_def)

lemma collect_recv_not_login:
  assumes "collect (map (make_post_request_recv env) resps) = Inl e"
  shows "e \<noteq> login_error"
proof
  assume "e = login_error"
  moreover have "collect (map (make_post_request_recv env) resps) \<noteq> Inl login_error"
    by (rule collect_not_error) (auto simp: make_post_request_recv_not_login)
  ultimately show False using assms by simp
qed

lemma combined_not_login:
  assumes "bindE (extend_rows [] responses) (\<lambda>r. bindE (first_columns responses) (\<lambda>cols.
             case pandas_DataFrame env (JArr r) cols of
               None \<Rightarrow> Inl PandasError | Some df \<Rightarrow> Inr (Combined df))) = Inl e"
  shows "e \<noteq> login_error"
  using assms extend_rows_not_login [of "[]" responses] first_columns_not_login [of responses]
  by (auto simp: bindE_def login_error_def split: sum.splits option.splits)

lemma executeQueryAsync_combined_eq:
  "bindM (liftE (extend_rows [] responses)) (\<lambda>r.
     bindM (liftE (first_columns responses)) (\<lambda>cols.
       liftE (case pandas_DataFrame env (JArr r) cols of
                None \<Rightarrow> Inl PandasError | Some df \<Rightarrow> Inr (Combined df)))) =
   liftE (bindE (extend_rows [] responses) (\<lambda>r. bindE (first_columns responses) (\<lambda>cols.
             case pandas_DataFrame env (JArr r) cols of
               None \<Rightarrow> Inl PandasError | Some df \<Rightarrow> Inr (Combined df))))"
  by (auto simp: bindM_def liftE_def bindE_def split: sum.splits)

lemma executeQueryAsync_safe:
  assumes tok: "token env = Inr tok"
  shows "safe (headers_ok tok) (\<lambda>e. e \<noteq> login_error) (executeQueryAsync env sql ctx fmt)"
proof -
  have tail: "safe (headers_ok tok) (\<lambda>e. e \<noteq> login_error)
      (if fmt \<noteq> PyNone
       then bindM (liftE (extend_rows [] responses)) (\<lambda>r.
            bindM (liftE (first_columns responses)) (\<lambda>cols.
              liftE (case pandas_DataFrame env (JArr r) cols of
                       None \<Rightarrow> Inl PandasError | Some df \<Rightarrow> Inr (Combined df))))
       else returnM (Responses responses))" for responses
  proof (cases "fmt = PyNone")
    case True
    then show ?thesis by (simp add: safe_returnM)
  next
    case False
    then show ?thesis
      unfolding executeQueryAsync_combined_eq
      by (simp add: safe_liftE combined_not_login)
  qed
  show ?thesis
    unfolding executeQueryAsync_def async_post_request_def Let_def
    apply (simp add: tok get_headers_json')
    apply (rule safe_bindM)
     apply (rule safe_bindM)
      apply (rule safe_send_all)
      apply (rule headers_ok_async)
     apply (rule safe_liftE)
     apply (erule collect_recv_not_login)
    apply (rule tail [simplified])
    done
qed

lemma headers_ok_poll: "headers_ok tok (poll_request env jobId tok)"
  by (simp add: poll_request_def headers_ok_simps [unfolded base_headers_def])

lemma poll_not_login: "poll env jobId tok k = Inl e \<Longrightarrow> e \<noteq> login_error"
  unfolding poll_def Let_def
  by (erule bindE_not_login)
     (auto dest: validate_not_login [OF on_error_starts(5)] response_to_json_not_login)

lemma job_status_not_login: "job_status env d = Inl e \<Longrightarrow> e \<noteq> login_error"
  unfolding job_status_def
  by (erule bindE_not_login) (auto dest: getitem_not_login int_of_json_not_login)

lemma loop_safe:
  assumes tok: "token env = Inr tok"
  shows "waitForJob_loop fuel env jobId verbose p s = Some (r, s') \<Longrightarrow>
     (\<exists>rs. requests (trace s') = requests (trace s) @ rs \<and> list_all (headers_ok tok) rs) \<and>
     r \<noteq> Inl login_error"
proof (induction fuel arbitrary: s)
  case 0
  then show ?case by simp
next
  case (Suc fuel)
  let ?q = "poll_request env jobId tok"
  let ?s = "s\<lparr>trace := trace s @ waiting verbose @ [Req ?q, Sleep (max p 5)]\<rparr>"
  have one: "requests (trace s') = requests (trace s) @ [?q] \<Longrightarrow> r \<noteq> Inl login_error \<Longrightarrow> ?case"
  proof -
    assume "requests (trace s') = requests (trace s) @ [?q]" and r: "r \<noteq> Inl login_error"
    then have "requests (trace s') = requests (trace s) @ [?q] \<and> list_all (headers_ok tok) [?q]"
      by (simp add: headers_ok_poll)
    with r show ?case by blast
  qed
  show ?case
  proof (cases "poll env jobId tok (length (requests (trace s)))")
    case (Inl e)
    with Suc.prems have h: "r = Inl e" "requests (trace s') = requests (trace s) @ [?q]"
      by (auto simp: loop_Suc [OF tok] requests_append)
    from h(1) poll_not_login [OF Inl] have "r \<noteq> Inl login_error" by simp
    from one [OF h(2) this] show ?thesis .
  next
    case d: (Inr d)
    show ?thesis
    proof (cases "job_status env d")
      case (Inl e)
      with d Suc.prems have h: "r = Inl e" "requests (trace s') = requests (trace s) @ [?q]"
        by (auto simp: loop_Suc [OF tok] requests_append)
      from h(1) job_status_not_login [OF Inl] have "r \<noteq> Inl login_error" by simp
      from one [OF h(2) this] show ?thesis .
    next
      case (Inr st)
      show ?thesis
      proof (cases "terminal st")
        case True
        with d Inr Suc.prems have h: "r = Inr d" "requests (trace s') = requests (trace s) @ [?q]"
          by (auto simp: loop_Suc [OF tok] requests_append)
        from h(1) have "r \<noteq> Inl login_error" by simp
        from one [OF h(2) this] show ?thesis .
      next
        case False
        with d Inr Suc.prems have "waitForJob_loop fuel env jobId verbose p ?s = Some (r, s')"
          by (simp add: loop_Suc [OF tok])
        from Suc.IH [OF this] obtain rs where
          rs: "requests (trace s') = requests (trace ?s) @ rs" "list_all (headers_ok tok) rs"
          and r: "r \<noteq> Inl login_error"
          by blast
        then have "requests (trace s') = requests (trace s) @ (?q # rs) \<and>
                   list_all (headers_ok tok) (?q # rs)"
          by (simp add: requests_append headers_ok_poll)
        with r show ?thesis by blast
      qed
    qed
  qed
qed

lemma waitForJob_safe:
  assumes tok: "token env = Inr tok"
    and "waitForJob fuel env jobId verbose p s = Some (r, s')"
  shows "(\<exists>rs. requests (trace s') = requests (trace s) @ rs \<and> list_all (headers_ok tok) rs) \<and>
     r \<noteq> Inl login_error"
  using loop_safe [OF tok, of fuel jobId verbose p "s\<lparr>trace := trace s @ waiting verbose\<rparr>" r s']
    assms(2)
  by (simp add: waitForJob_loop_eq requests_append)

lemma outcome_safe:
  assumes "safe P (\<lambda>e. e \<noteq> login_error) m" and "outcome m s = Some (r, s')"
  shows "(\<exists>rs. requests (trace s') = requests (trace s) @ rs \<and> list_all P rs) \<and>
         r \<noteq> Inl login_error"
proof -
  obtain x s1 where ms: "m s = (x, s1)" by (cases "m s")
  from assms(1) have "(\<exists>rs. requests (trace (snd (m s))) = requests (trace s) @ rs \<and> list_all P rs) \<and>
      (\<forall>e. fst (m s) = Inl e \<longrightarrow> e \<noteq> login_error)"
    unfolding safe_def by blast
  with ms assms(2) show ?thesis
    by (cases x) (auto simp: outcome_def)
qed

lemma call_safe:
  assumes tok: "token env = Inr tok" and c: "call fuel env c s = Some (r, s')"
  shows "(\<exists>rs. requests (trace s') = requests (trace s) @ rs \<and> list_all (headers_ok tok) rs) \<and>
         r \<noteq> Inl login_error"
proof (cases c)
  case (WaitForJob jobId verbose pollTime)
  with c obtain r0 where w: "waitForJob fuel env jobId verbose pollTime s = Some (r0, s')"
    and r: "r = (case r0 of Inl e \<Rightarrow> Inl e | Inr d \<Rightarrow> Inr ())"
    by (auto split: option.splits sum.splits)
  from waitForJob_safe [OF tok w] r show ?thesis
    by (cases r0) auto
next
  case GetSchemaName
  with c have "outcome (getSchemaName env ) s = Some (r, s')"
    by simp
  then show ?thesis
    by (rule outcome_safe [OF getSchemaName_safe [OF tok]])
next
  case (GetTables ctx)
  with c have "outcome (getTables env ctx) s = Some (r, s')"
    by simp
  then show ?thesis
    by (rule outcome_safe [OF getTables_safe [OF tok]])
next
  case (ExecuteQuery sql ctx fmt)
  with c have "outcome (executeQuery env sql ctx fmt) s = Some (r, s')"
    by simp
  then show ?thesis
    by (rule outcome_safe [OF executeQuery_safe [OF tok]])
next
  case (ExecuteQueryAsync sql ctx fmt)
  with c have "outcome (executeQueryAsync env sql ctx fmt) s = Some (r, s')"
    by simp
  then show ?thesis
    by (rule outcome_safe [OF executeQueryAsync_safe [OF tok]])
next
  case (SubmitJob sql ctx)
  with c have "outcome (submitJob env sql ctx) s = Some (r, s')"
    by simp
  then show ?thesis
    by (rule outcome_safe [OF submitJob_safe [OF tok]])
next
  case (GetJobStatus jobId)
  with c have "outcome (getJobStatus env jobId) s = Some (r, s')"
    by simp
  then show ?thesis
    by (rule outcome_safe [OF getJobStatus_safe [OF tok]])
next
  case (CancelJob jobId)
  with c have "outcome (cancelJob env jobId) s = Some (r, s')"
    by simp
  then show ?thesis
    by (rule outcome_safe [OF cancelJob_safe [OF tok]])
next
  case (WriteFitsFileFromQuery fileName q ctx)
  with c have "outcome (writeFitsFileFromQuery env fileName q ctx) s = Some (r, s')"
    by simp
  then show ?thesis
    by (rule outcome_safe [OF writeFitsFileFromQuery_safe [OF tok]])
next
  case (GetPandasDataFrameFromQuery q ctx)
  with c have "outcome (getPandasDataFrameFromQuery env q ctx) s = Some (r, s')"
    by simp
  then show ?thesis
    by (rule outcome_safe [OF getPandasDataFrameFromQuery_safe [OF tok]])
next
  case (GetNumpyArrayFromQuery q ctx)
  with c have "outcome (getNumpyArrayFromQuery env q ctx) s = Some (r, s')"
    by simp
  then show ?thesis
    by (rule outcome_safe [OF getNumpyArrayFromQuery_safe [OF tok]])
next
  case (UploadPandasDataFrameToTable df tbl ctx)
  with c have "outcome (uploadPandasDataFrameToTable env df tbl ctx) s = Some (r, s')"
    by simp
  then show ?thesis
    by (rule outcome_safe [OF uploadPandasDataFrameToTable_safe [OF tok]])
next
  case (UploadCSVDataToTable csvData tbl ctx)
  with c have "outcome (uploadCSVDataToTable env csvData tbl ctx) s = Some (r, s')"
    by simp
  then show ?thesis
    by (rule outcome_safe [OF uploadCSVDataToTable_safe [OF tok]])
qed

lemma token_login_error:
  "getToken env = None \<or> getToken env = Some [] \<Longrightarrow> token env = Inl login_error"
  by (auto simp: token_def login_error_def)

lemmas op_defs = getSchemaName_def getTables_def executeQuery_def executeQueryAsync_def
  submitJob_def getJobStatus_def cancelJob_def writeFitsFileFromQuery_def
  getPandasDataFrameFromQuery_def getNumpyArrayFromQuery_def uploadPandasDataFrameToTable_def
  uploadCSVDataToTable_def

lemma bindM_liftE_Inl [simp]: "bindM (liftE (Inl e)) f = liftE (Inl e)"
  by (simp add: bindM_def liftE_def)

lemma liftE_apply: "liftE r s = (r, s)"
  by (simp add: liftE_def)

lemma bindM_set_task_name:
  "bindM (set_task_name v) f s = f () (s\<lparr>task := (task s)\<lparr>name := v\<rparr>\<rparr>)"
  by (simp add: bindM_def set_task_name_def)

lemma bindM_take_task_name:
  "bindM (take_task_name env operation) f s =
     (case name (task s) of
        Some taskName \<Rightarrow> f taskName (s\<lparr>task := (task s)\<lparr>name := None\<rparr>\<rparr>)
      | None \<Rightarrow> f (get_taskname env operation) s)"
  by (simp add: bindM_def take_task_name_def split: option.splits)

lemma executeQuery_no_token:
  "token env = Inl e \<Longrightarrow>
     executeQuery env sql ctx fmt s = (Inl e, s\<lparr>task := (task s)\<lparr>name := None\<rparr>\<rparr>)"
  by (simp add: executeQuery_def url_dict_get_simps bindM_take_task_name liftE_apply
        split: option.splits)

lemma call_no_token:
  assumes t: "token env = Inl e" and f: "0 < fuel"
  shows "map_option fst (call fuel env c s) = Some (Inl e) \<and>
         map_option (\<lambda>r. requests (trace (snd r))) (call fuel env c s) = Some (requests (trace s))"
proof (cases c)
  case (WaitForJob jobId verbose pollTime)
  from f obtain k where k: "fuel = Suc k" by (cases fuel) auto
  show ?thesis
    by (simp add: WaitForJob k waitForJob_loop_eq waitForJob_loop.simps(2) loop_step_state
          getJobStatus_no_token [OF t] requests_append)
next
  case (WriteFitsFileFromQuery fileName q ctx)
  then show ?thesis
    by (simp add: outcome_def writeFitsFileFromQuery_def bindM_def set_task_name_def
          executeQuery_no_token [OF t])
next
  case (GetPandasDataFrameFromQuery q ctx)
  then show ?thesis
    by (simp add: outcome_def getPandasDataFrameFromQuery_def bindM_def set_task_name_def
          executeQuery_no_token [OF t])
next
  case (GetNumpyArrayFromQuery q ctx)
  then show ?thesis
    by (simp add: outcome_def getNumpyArrayFromQuery_def getPandasDataFrameFromQuery_def
          bindM_def set_task_name_def executeQuery_no_token [OF t])
qed (simp_all add: outcome_def getSchemaName_def getTables_def executeQueryAsync_def
       submitJob_def getJobStatus_def cancelJob_def uploadPandasDataFrameToTable_def
       uploadCSVDataToTable_def executeQuery_no_token t url_dict_get_simps Let_def
       bindM_set_task_name bindM_take_task_name liftE_apply split: option.splits)

lemma executeQueryAsync_trace:
  assumes "getToken env = Some tok" "tok \<noteq> []"
  shows "trace (snd (executeQueryAsync env sql ctx fmt s)) =
     trace s @ map (\<lambda>q. Req \<lparr>req_method = POST,
                              req_url = CasJobsRESTUri env @ ''/contexts/'' @ ctx @ ''/query'',
                              req_headers = base_headers tok
                                @ [(CASJOBSCONST_ACCEPT, ''application/json+array'')],
                              req_data = format_data q (get_taskname env TASKNAMES_EXECUTEQUERY)\<rparr>)
                (case sql of Query q \<Rightarrow> [q] | Queries qs \<Rightarrow> qs)"
  by (simp add: executeQueryAsync_def async_post_request_def send_all_run get_headers_json'
        token_valid [OF assms] bindM_def liftE_def returnM_def Let_def make_post_request_send_def
        o_def split: sum.splits)

lemma executeQueryAsync_request_headers:
  assumes "getToken env = Some tok" "tok \<noteq> []"
  shows "\<exists>rs. requests (trace (snd (executeQueryAsync env sql ctx fmt s))) = requests (trace s) @ rs \<and>
              list_all (\<lambda>q. req_method q = POST \<and>
                             req_headers q = base_headers tok
                               @ [(CASJOBSCONST_ACCEPT, ''application/json+array'')]) rs"
proof -
  let ?f = "\<lambda>q. \<lparr>req_method = POST,
                  req_url = CasJobsRESTUri env @ ''/contexts/'' @ ctx @ ''/query'',
                  req_headers = base_headers tok
                    @ [(CASJOBSCONST_ACCEPT, ''application/json+array'')],
                  req_data = format_data q (get_taskname env TASKNAMES_EXECUTEQUERY)\<rparr>"
  let ?qs = "case sql of Query q \<Rightarrow> [q] | Queries qs \<Rightarrow> qs"
  have "trace (snd (executeQueryAsync env sql ctx fmt s)) = trace s @ map Req (map ?f ?qs)"
    by (simp add: executeQueryAsync_trace [OF assms] o_def)
  then have "requests (trace (snd (executeQueryAsync env sql ctx fmt s))) =
               requests (trace s @ map Req (map ?f ?qs))"
    by (simp only:)
  then have r: "requests (trace (snd (executeQueryAsync env sql ctx fmt s))) =
               requests (trace s) @ map ?f ?qs"
    by (simp only: requests_map_Req)
  have l: "list_all (\<lambda>q. req_method q = POST \<and>
                            req_headers q = base_headers tok
                              @ [(CASJOBSCONST_ACCEPT, ''application/json+array'')]) (map ?f ?qs)"
    by (simp add: list_all_iff)
  from r l show ?thesis by (rule exI [where x = "map ?f ?qs", OF conjI])
qed

section \<open>Properties of the module\<close>

text \<open>
  C3. A format tag outside the recognized set pandas, json, dict, csv, readable, StringIO,
  fits, BytesIO makes both the selection of the accept header and the decoding of the
  response body raise the illegal-format error, whose message ends with the offending
  value as \<open>str\<close> prints it. For a tag inside the set the accept header is selected without
  any error, and the decoding never raises the illegal-format error: what it raises is the
  exception of a decoding step. For \<open>fits\<close> and \<open>BytesIO\<close> it always returns the bytes; for
  \<open>readable\<close>, \<open>StringIO\<close>, \<open>csv\<close> and \<open>json\<close> it returns the decoded text and raises exactly
  when the bytes do not decode; for \<open>dict\<close> it raises also when the text is not JSON; for
  \<open>pandas\<close> also when taking the result sets out of the parsed value or building a table
  fails.
\<close>

theorem illegal_format_iff_unrecognized:
  "(fmt \<notin> set recognized_formats \<longrightarrow>
      format_to_accept_header fmt = Inl (ValueError (EXCEPT_ILLEGAL_FORMAT_ERROR @ str fmt)) \<and>
      parse_post env resp fmt = Inl (ValueError (EXCEPT_ILLEGAL_FORMAT_ERROR @ str fmt))) \<and>
   (fmt \<in> set recognized_formats \<longrightarrow>
      format_to_accept_header fmt
        \<in> set [Inr ''application/json+array'', Inr ''text/plain'', Inr ''application/fits''] \<and>
      (\<forall>e. parse_post env resp fmt = Inl e \<longrightarrow> decoding_error e)) \<and>
   parse_post env resp (PyStr ''fits'') = Inr (BytesIO (content resp)) \<and>
   parse_post env resp (PyStr ''BytesIO'') = Inr (BytesIO (content resp)) \<and>
   parse_post env resp (PyStr ''readable'') =
     (case decode env (content resp) of
        None \<Rightarrow> Inl UnicodeDecodeError | Some t \<Rightarrow> Inr (StringIO t)) \<and>
   parse_post env resp (PyStr ''StringIO'') =
     (case decode env (content resp) of
        None \<Rightarrow> Inl UnicodeDecodeError | Some t \<Rightarrow> Inr (StringIO t)) \<and>
   parse_post env resp (PyStr ''csv'') =
     (case decode env (content resp) of
        None \<Rightarrow> Inl UnicodeDecodeError | Some t \<Rightarrow> Inr (Text t)) \<and>
   parse_post env resp (PyStr ''json'') =
     (case decode env (content resp) of
        None \<Rightarrow> Inl UnicodeDecodeError | Some t \<Rightarrow> Inr (Text t)) \<and>
   parse_post env resp (PyStr ''dict'') =
     (case decode env (content resp) of
        None \<Rightarrow> Inl UnicodeDecodeError
      | Some t \<Rightarrow> (case loads env t of None \<Rightarrow> Inl JSONDecodeError | Some j \<Rightarrow> Inr (Dict j))) \<and>
   parse_post env resp (PyStr ''pandas'') =
     (case decode env (content resp) of
        None \<Rightarrow> Inl UnicodeDecodeError
      | Some t \<Rightarrow>
          (case loads env t of
             None \<Rightarrow> Inl JSONDecodeError
           | Some r \<Rightarrow>
               bindE (getitem r ''Result'') (\<lambda>res.
               bindE (len res) (\<lambda>n.
                 if 1 < n
                 then bindE (iter res) (\<lambda>results.
                      bindE (collect (map (frame_of_result env) results)) (\<lambda>dfs. Inr (Frames dfs)))
                 else bindE (getitem0 res) (\<lambda>r0.
                      bindE (frame_of_result env r0) (\<lambda>df. Inr (Frame df)))))))"
proof (intro conjI impI allI)
  assume "fmt \<notin> set recognized_formats"
  from unrecognized_format_raises [OF this, of env resp]
  show "format_to_accept_header fmt = Inl (ValueError (EXCEPT_ILLEGAL_FORMAT_ERROR @ str fmt))"
    and "parse_post env resp fmt = Inl (ValueError (EXCEPT_ILLEGAL_FORMAT_ERROR @ str fmt))"
    by (simp_all add: illegal_format_def)
next
  assume "fmt \<in> set recognized_formats"
  then show "format_to_accept_header fmt
        \<in> set [Inr ''application/json+array'', Inr ''text/plain'', Inr ''application/fits'']"
    by (rule format_to_accept_header_recognized)
next
  fix e
  assume "fmt \<in> set recognized_formats" and "parse_post env resp fmt = Inl e"
  then show "decoding_error e"
    by (rule parse_post_recognized_decoding)
qed (simp_all only: parse_post_text_eq parse_post_bytes_eq parse_post_dict_eq parse_post_pandas_eq)

theorem illegal_format_iff_unrecognized_witness:
  "format_to_accept_header (PyStr ''xml'') =
     Inl (ValueError ''Error when executing query. Illegal format parameter specification: xml'') \<and>
   parse_post demo_env \<lparr>status_code = 200, content = ''a,b''\<rparr> (PyStr ''xml'') =
     Inl (ValueError ''Error when executing query. Illegal format parameter specification: xml'') \<and>
   format_to_accept_header PyNone =
     Inl (ValueError ''Error when executing query. Illegal format parameter specification: None'') \<and>
   format_to_accept_header (PyStr ''csv'') = Inr ''text/plain'' \<and>
   parse_post demo_env \<lparr>status_code = 200, content = ''a,b''\<rparr> (PyStr ''csv'') = Inr (Text ''a,b'') \<and>
   parse_post demo_env \<lparr>status_code = 200, content = ''a,b''\<rparr> (PyStr ''dict'') =
     Inl JSONDecodeError \<and>
   decoding_error JSONDecodeError"
proof -
  have d: "decode demo_env ''a,b'' = Some ''a,b''" "loads demo_env ''a,b'' = None"
    by code_simp+
  have r: "PyStr ''xml'' \<notin> set recognized_formats" "PyNone \<notin> set recognized_formats"
    "PyStr ''csv'' \<in> set recognized_formats" "PyStr ''dict'' \<in> set recognized_formats"
    by (simp_all add: recognized_formats_def)
  have a: "format_to_accept_header (PyStr ''csv'') = Inr ''text/plain''"
    by (simp add: format_to_accept_header_def)
  show ?thesis
    using r a
        illegal_format_iff_unrecognized
          [of "PyStr ''xml''" demo_env "\<lparr>status_code = 200, content = ''a,b''\<rparr>"]
        illegal_format_iff_unrecognized
          [of PyNone demo_env "\<lparr>status_code = 200, content = ''a,b''\<rparr>"]
        illegal_format_iff_unrecognized
          [of "PyStr ''dict''" demo_env "\<lparr>status_code = 200, content = ''a,b''\<rparr>"]
    by (simp add: d EXCEPT_ILLEGAL_FORMAT_ERROR_def join_str_def)
qed

theorem recognized_tag_decoding_raises_counterexample:
  "PyStr ''csv'' \<in> set recognized_formats \<and>
   parse_post (demo_env\<lparr>decode := decode_ascii\<rparr>)
       \<lparr>status_code = 200, content = [CHR 0xFF]\<rparr> (PyStr ''csv'') = Inl UnicodeDecodeError \<and>
   PyStr ''dict'' \<in> set recognized_formats \<and>
   parse_post demo_env \<lparr>status_code = 200, content = ''not json''\<rparr> (PyStr ''dict'') =
     Inl JSONDecodeError \<and>
   PyStr ''pandas'' \<in> set recognized_formats \<and>
   parse_post (demo_env\<lparr>loads := (\<lambda>t. Some (JObj [(''Result'', JArr [])]))\<rparr>)
       \<lparr>status_code = 200, content = ''{Result:[]}''\<rparr> (PyStr ''pandas'') = Inl IndexError"
  by code_simp

text \<open>
  C4. Validation of a response, as the synchronous calls and as the asynchronous session
  do it, raises nothing when the status code is 200. For any other status code and a body
  that decodes to the text \<open>body\<close>, it raises a \<open>ValueError\<close> whose message is the
  operation's message (the caller's \<open>on_error\<close>; the fixed execute-query message in the
  asynchronous session), the HTTP error line with the decimal status code, and the body
  text, joined by blanks; so the message contains each of the three. For any other status
  code and a body that does not decode, it raises the error of the decoding instead.
\<close>

theorem non_200_raises_http_error:
  "(status_code resp = 200 \<longrightarrow>
      validate_response_status env resp on_error = Inr () \<and>
      async_validate_response_status env resp = Inr ()) \<and>
   (status_code resp \<noteq> 200 \<and> decode env (content resp) = Some body \<longrightarrow>
      validate_response_status env resp on_error =
        Inl (ValueError (http_error_message on_error (status_code resp) body)) \<and>
      async_validate_response_status env resp =
        Inl (ValueError (http_error_message EXCEPT_EXECUTE_QUERY_ERROR (status_code resp) body)) \<and>
      sublist on_error (http_error_message on_error (status_code resp) body) \<and>
      sublist (str_int (status_code resp)) (http_error_message on_error (status_code resp) body) \<and>
      sublist body (http_error_message on_error (status_code resp) body)) \<and>
   (status_code resp \<noteq> 200 \<and> decode env (content resp) = None \<longrightarrow>
      validate_response_status env resp on_error = Inl UnicodeDecodeError \<and>
      async_validate_response_status env resp = Inl UnicodeDecodeError)"
  by (simp add: async_validate_response_status_eq validate_response_status_eq
        http_error_message_contains)

theorem non_200_raises_http_error_witness:
  "validate_response_status demo_env \<lparr>status_code = 404, content = ''no such job''\<rparr>
       ''Error when canceling job 7.'' =
     Inl (ValueError (''Error when canceling job 7. Http Response from CasJobs API returned status code 404:''
                      @ [CHR 0x0A] @ '' no such job'')) \<and>
   async_validate_response_status demo_env \<lparr>status_code = 404, content = ''no such job''\<rparr> =
     Inl (ValueError (''Error when executing query. Http Response from CasJobs API returned status code 404:''
                      @ [CHR 0x0A] @ '' no such job'')) \<and>
   validate_response_status demo_env \<lparr>status_code = 200, content = ''no such job''\<rparr>
       ''Error when canceling job 7.'' = Inr () \<and>
   validate_response_status (demo_env\<lparr>decode := decode_ascii\<rparr>)
       \<lparr>status_code = 503, content = [CHR 0x80, CHR 0x41]\<rparr> ''Error when canceling job 7.'' =
     Inl UnicodeDecodeError"
proof -
  have s: "str_int 404 = ''404''"
    by code_simp
  have d: "decode (demo_env\<lparr>decode := decode_ascii\<rparr>) [CHR 0x80, CHR 0x41] = None"
    by code_simp
  show ?thesis
    using non_200_raises_http_error
            [of "\<lparr>status_code = 404, content = ''no such job''\<rparr>" demo_env
                "''Error when canceling job 7.''" "''no such job''"]
          non_200_raises_http_error
            [of "\<lparr>status_code = 200, content = ''no such job''\<rparr>" demo_env
                "''Error when canceling job 7.''" "''no such job''"]
          non_200_raises_http_error
            [of "\<lparr>status_code = 503, content = [CHR 0x80, CHR 0x41]\<rparr>"
                "demo_env\<lparr>decode := decode_ascii\<rparr>"
                "''Error when canceling job 7.''" "''no such job''"]
          d
    by (simp add: demo_env_def http_error_message_def s EXCEPT_EXECUTE_QUERY_ERROR_def)
qed

theorem undecodable_body_counterexample:
  "validate_response_status (demo_env\<lparr>decode := decode_ascii\<rparr>)
       \<lparr>status_code = 500, content = [CHR 0xFF]\<rparr> ''Error when executing query.'' =
     Inl UnicodeDecodeError \<and>
   async_validate_response_status (demo_env\<lparr>decode := decode_ascii\<rparr>)
       \<lparr>status_code = 500, content = [CHR 0xFF]\<rparr> = Inl UnicodeDecodeError"
  by code_simp

text \<open>
  C7. The task-name override \<open>task.name\<close> is a one-shot value. Whatever the state before,
  after \<open>executeQuery\<close> and after \<open>uploadCSVDataToTable\<close> the override is \<open>None\<close>, also when
  the call raises. When the call gets as far as its request (the token is present and
  the headers are built), the request is made with the override as the call's task name
  if one was set, and with the operation's own prefixed name otherwise: in the URL for
  both operations, and in the body's \<open>TaskName\<close> field for \<open>executeQuery\<close>. So an override is
  used by the first call that consults it, and a later call finds none.
\<close>

theorem task_name_override_one_shot:
  "name (task (snd (executeQuery env sql ctx fmt s))) = None \<and>
   name (task (snd (uploadCSVDataToTable env csvData tbl ctx s))) = None \<and>
   (getToken env = Some tok \<and> tok \<noteq> [] \<and> get_headers tok fmt = Inr hs \<longrightarrow>
      trace (snd (executeQuery env sql ctx fmt s)) =
        trace s @ [Req \<lparr>req_method = POST,
                        req_url = query_url env ctx
                          (case name (task s) of Some n \<Rightarrow> n
                           | None \<Rightarrow> get_taskname env TASKNAMES_EXECUTEQUERY),
                        req_headers = hs,
                        req_data = format_data sql
                          (case name (task s) of Some n \<Rightarrow> n
                           | None \<Rightarrow> get_taskname env TASKNAMES_EXECUTEQUERY)\<rparr>] \<and>
      trace (snd (uploadCSVDataToTable env csvData tbl ctx s)) =
        trace s @ [Req \<lparr>req_method = POST,
                        req_url = upload_url env ctx tbl
                          (case name (task s) of Some n \<Rightarrow> n
                           | None \<Rightarrow> get_taskname env TASKNAMES_UPLOADCSVDATATOTABLE),
                        req_headers = [(CASJOBSCONST_X_AUTH_TOKEN, tok)],
                        req_data = RawBytes csvData\<rparr>])"
  by (simp add: executeQuery_resets uploadCSVDataToTable_resets executeQuery_trace
        uploadCSVDataToTable_trace)

theorem task_name_override_one_shot_witness:
  "name (task (snd (executeQuery demo_env ''select 1'' ''MyDB'' (PyStr ''csv'')
                      \<lparr>task = \<lparr>name = Some ''myTask''\<rparr>, trace = []\<rparr>))) = None \<and>
   trace (snd (executeQuery demo_env ''select 1'' ''MyDB'' (PyStr ''csv'')
                 \<lparr>task = \<lparr>name = Some ''myTask''\<rparr>, trace = []\<rparr>)) =
     [Req \<lparr>req_method = POST,
           req_url = ''https://casjobs.example/RestApi/contexts/MyDB/query?TaskName=SciScript-Python.CasJobs.myTask'',
           req_headers = [(''X-Auth-Token'', ''secret''), (''Content-Type'', ''application/json''),
                          (''Accept'', ''text/plain'')],
           req_data = Dumps [(''Query'', ''select 1''), (''TaskName'', ''myTask'')]\<rparr>] \<and>
   trace (snd (executeQuery demo_env ''select 2'' ''MyDB'' (PyStr ''csv'')
                 \<lparr>task = \<lparr>name = None\<rparr>, trace = []\<rparr>)) =
     [Req \<lparr>req_method = POST,
           req_url = ''https://casjobs.example/RestApi/contexts/MyDB/query?TaskName=SciScript-Python.CasJobs.SciScript-Python.CasJobs.executeQuery'',
           req_headers = [(''X-Auth-Token'', ''secret''), (''Content-Type'', ''application/json''),
                          (''Accept'', ''text/plain'')],
           req_data = Dumps [(''Query'', ''select 2''),
                             (''TaskName'', ''SciScript-Python.CasJobs.executeQuery'')]\<rparr>]"
proof -
  have h: "getToken demo_env = Some ''secret'' \<and> ''secret'' \<noteq> [] \<and>
           get_headers ''secret'' (PyStr ''csv'') =
             Inr [(''X-Auth-Token'', ''secret''), (''Content-Type'', ''application/json''),
                  (''Accept'', ''text/plain'')]"
    by code_simp
  have u1: "query_url demo_env ''MyDB'' ''myTask'' =
              ''https://casjobs.example/RestApi/contexts/MyDB/query?TaskName=SciScript-Python.CasJobs.myTask''"
    by code_simp
  have u2: "query_url demo_env ''MyDB'' (get_taskname demo_env TASKNAMES_EXECUTEQUERY) =
              ''https://casjobs.example/RestApi/contexts/MyDB/query?TaskName=SciScript-Python.CasJobs.SciScript-Python.CasJobs.executeQuery''"
    by code_simp
  have d1: "format_data ''select 1'' ''myTask'' =
              Dumps [(''Query'', ''select 1''), (''TaskName'', ''myTask'')]"
    by code_simp
  have d2: "format_data ''select 2'' (get_taskname demo_env TASKNAMES_EXECUTEQUERY) =
              Dumps [(''Query'', ''select 2''),
                     (''TaskName'', ''SciScript-Python.CasJobs.executeQuery'')]"
    by code_simp
  show ?thesis
    using h
      task_name_override_one_shot
        [of demo_env "''select 1''" "''MyDB''" "PyStr ''csv''"
            "\<lparr>task = \<lparr>name = Some ''myTask''\<rparr>, trace = []\<rparr>" "[]" "[]" "''secret''"
            "[(''X-Auth-Token'', ''secret''), (''Content-Type'', ''application/json''),
              (''Accept'', ''text/plain'')]"]
      task_name_override_one_shot
        [of demo_env "''select 2''" "''MyDB''" "PyStr ''csv''"
            "\<lparr>task = \<lparr>name = None\<rparr>, trace = []\<rparr>" "[]" "[]" "''secret''"
            "[(''X-Auth-Token'', ''secret''), (''Content-Type'', ''application/json''),
              (''Accept'', ''text/plain'')]"]
    by (simp add: u1 u2 d1 d2)
qed

text \<open>
  C8. \<open>uploadPandasDataFrameToTable\<close> posts one request whose body is the table written as
  CSV. If the index of the table has a name (\<open>index.name\<close> is neither \<open>None\<close> nor the empty
  string), every line of the payload starts with the index column: the header line with
  the index name, each row with its index label. Otherwise the payload has the column
  names and the rows only.
\<close>

theorem upload_dataframe_index_column:
  assumes "getToken env = Some tok" and "tok \<noteq> []"
  shows "trace (snd (uploadPandasDataFrameToTable env df tbl ctx s)) =
     trace s @ [Req \<lparr>req_method = POST,
                     req_url = upload_url env ctx tbl
                       (get_taskname env TASKNAMES_UPLOADPANDASDATAFRAMETOTABLE),
                     req_headers = [(CASJOBSCONST_X_AUTH_TOKEN, tok)],
                     req_data = RawBytes (encode env (csv_lines
                       (if index_name df \<noteq> PyNone \<and> index_name df \<noteq> PyStr []
                        then (str (index_name df) # columns df)
                               # map (\<lambda>(l, r). l # r) (zip (index_labels df) (rows df))
                        else columns df # rows df)))\<rparr>]"
  by (simp add: uploadPandasDataFrameToTable_trace [OF assms] to_csv_def)

theorem upload_dataframe_index_column_witness:
  "getToken demo_env = Some ''secret'' \<and> ''secret'' \<noteq> [] \<and>
   trace (snd (uploadPandasDataFrameToTable demo_env demo_frame ''T'' ''MyDB'' state0)) =
     [Req \<lparr>req_method = POST,
           req_url = ''https://casjobs.example/RestApi/contexts/MyDB/query?TaskName=SciScript-Python.CasJobs.SciScript-Python.CasJobs.uploadPandasDataFrameToTable'',
           req_headers = [(''X-Auth-Token'', ''secret'')],
           req_data = RawBytes (''id,a,b'' @ [CHR 0x0A] @ ''1,x,y'' @ [CHR 0x0A] @ ''2,z,w''
                                @ [CHR 0x0A])\<rparr>] \<and>
   trace (snd (uploadPandasDataFrameToTable demo_env (demo_frame\<lparr>index_name := PyNone\<rparr>)
                      ''T'' ''MyDB'' state0)) =
     [Req \<lparr>req_method = POST,
           req_url = ''https://casjobs.example/RestApi/contexts/MyDB/query?TaskName=SciScript-Python.CasJobs.SciScript-Python.CasJobs.uploadPandasDataFrameToTable'',
           req_headers = [(''X-Auth-Token'', ''secret'')],
           req_data = RawBytes (''a,b'' @ [CHR 0x0A] @ ''x,y'' @ [CHR 0x0A] @ ''z,w''
                                @ [CHR 0x0A])\<rparr>]"
proof -
  have h: "getToken demo_env = Some ''secret''" "''secret'' \<noteq> []"
    by (simp_all add: demo_env_def)
  have e: "encode demo_env = (\<lambda>t. t)"
    by (simp add: demo_env_def)
  have u: "upload_url demo_env ''MyDB'' ''T''
             (get_taskname demo_env TASKNAMES_UPLOADPANDASDATAFRAMETOTABLE) =
           ''https://casjobs.example/RestApi/contexts/MyDB/query?TaskName=SciScript-Python.CasJobs.SciScript-Python.CasJobs.uploadPandasDataFrameToTable''"
    by code_simp
  show ?thesis
    using h upload_dataframe_index_column [OF h, of demo_frame "''T''" "''MyDB''" state0]
      upload_dataframe_index_column
        [OF h, of "demo_frame\<lparr>index_name := PyNone\<rparr>" "''T''" "''MyDB''" state0]
    by (simp add: e u demo_frame_def csv_lines_def state0_def CASJOBSCONST_X_AUTH_TOKEN_def)
qed

text \<open>
  C10. A call of \<open>executeQuery\<close> or \<open>uploadCSVDataToTable\<close> with no override set posts to
  the execute-query URL with its operation's default task name, already prefixed, as the
  task name; what is substituted for the task-name placeholder is \<open>?TaskName=\<close> followed
  by the environment's prefix twice and the operation's name. When the base URI and
  the context hold no \<open><\<close>, only the template's placeholders are substituted and the URL
  ends with that parameter. The body of \<open>executeQuery\<close>'s request carries the name with the
  prefix once in its \<open>TaskName\<close> field. The body of \<open>uploadCSVDataToTable\<close>'s request is the
  CSV payload, which has no \<open>TaskName\<close> field.
\<close>

theorem default_task_name_twice_in_url:
  assumes "name (task s) = None" and "getToken env = Some tok" and "tok \<noteq> []"
    and "get_headers tok fmt = Inr hs"
  shows "trace (snd (executeQuery env sql ctx fmt s)) =
           trace s @ [Req \<lparr>req_method = POST,
                           req_url = query_url env ctx (task_prefix env @ TASKNAMES_EXECUTEQUERY),
                           req_headers = hs,
                           req_data = format_data sql
                             (task_prefix env @ TASKNAMES_EXECUTEQUERY)\<rparr>] \<and>
         body_task_name (format_data sql (task_prefix env @ TASKNAMES_EXECUTEQUERY)) =
           Some (task_prefix env @ TASKNAMES_EXECUTEQUERY) \<and>
         trace (snd (uploadCSVDataToTable env csvData tbl ctx s)) =
           trace s @ [Req \<lparr>req_method = POST,
                           req_url = upload_url env ctx tbl
                             (task_prefix env @ TASKNAMES_UPLOADCSVDATATOTABLE),
                           req_headers = [(CASJOBSCONST_X_AUTH_TOKEN, tok)],
                           req_data = RawBytes csvData\<rparr>] \<and>
         body_task_name (RawBytes csvData) = None \<and>
         taskname_url env (task_prefix env @ operation) =
           ''?TaskName='' @ task_prefix env @ task_prefix env @ operation \<and>
         (CHR ''<'' \<notin> set (CasJobsRESTUri env) \<and> CHR ''<'' \<notin> set ctx \<longrightarrow>
            query_url env ctx (task_prefix env @ operation) =
              CasJobsRESTUri env @ ''/contexts/'' @ ctx @ ''/query?TaskName=''
                @ task_prefix env @ task_prefix env @ operation \<and>
            upload_url env ctx tbl (task_prefix env @ operation) =
              CasJobsRESTUri env @ ''/contexts/'' @ ctx @ ''/query?TaskName=''
                @ task_prefix env @ task_prefix env @ operation)"
  using assms
  by (simp add: executeQuery_trace uploadCSVDataToTable_trace query_url_free upload_url_free
        body_task_name_format_data get_taskname_prefix taskname_url_eq)
     (simp add: body_task_name_def)

theorem default_task_name_twice_in_url_witness:
  "name (task state0) = None \<and> getToken demo_env = Some ''secret'' \<and> ''secret'' \<noteq> [] \<and>
   get_headers ''secret'' (PyStr ''csv'') =
     Inr [(''X-Auth-Token'', ''secret''), (''Content-Type'', ''application/json''),
          (''Accept'', ''text/plain'')] \<and>
   CHR ''<'' \<notin> set (CasJobsRESTUri demo_env) \<and> CHR ''<'' \<notin> set ''MyDB'' \<and>
   trace (snd (executeQuery demo_env ''select 1'' ''MyDB'' (PyStr ''csv'') state0)) =
     [Req \<lparr>req_method = POST,
           req_url = ''https://casjobs.example/RestApi/contexts/MyDB/query?TaskName=SciScript-Python.CasJobs.SciScript-Python.CasJobs.executeQuery'',
           req_headers = [(''X-Auth-Token'', ''secret''), (''Content-Type'', ''application/json''),
                          (''Accept'', ''text/plain'')],
           req_data = Dumps [(''Query'', ''select 1''),
                             (''TaskName'', ''SciScript-Python.CasJobs.executeQuery'')]\<rparr>]"
proof -
  have h: "name (task state0) = None" "getToken demo_env = Some ''secret''" "''secret'' \<noteq> []"
    "get_headers ''secret'' (PyStr ''csv'') =
       Inr [(''X-Auth-Token'', ''secret''), (''Content-Type'', ''application/json''),
            (''Accept'', ''text/plain'')]"
    by code_simp+
  have f: "CHR ''<'' \<notin> set (CasJobsRESTUri demo_env)" "CHR ''<'' \<notin> set ''MyDB''"
    by code_simp+
  have p: "task_prefix demo_env = ''SciScript-Python.CasJobs.''"
    by code_simp
  have b: "CasJobsRESTUri demo_env = ''https://casjobs.example/RestApi''"
    by code_simp
  show ?thesis
    using h f default_task_name_twice_in_url
                [OF h, of "''select 1''" "''MyDB''" "[]" "[]" TASKNAMES_EXECUTEQUERY]
    by (simp add: p b TASKNAMES_EXECUTEQUERY_def format_data_def state0_def
          CASJOBSCONST_QUERY_def CASJOBSCONST_TASKNAME_def)
qed

theorem upload_body_without_task_name_counterexample:
  "requests (trace (snd (uploadCSVDataToTable demo_env ''a,b'' ''MyTable'' ''MyDB'' state0))) =
     [\<lparr>req_method = POST,
       req_url = ''https://casjobs.example/RestApi/contexts/MyDB/query?TaskName=SciScript-Python.CasJobs.SciScript-Python.CasJobs.uploadCSVDataToTable'',
       req_headers = [(''X-Auth-Token'', ''secret'')],
       req_data = RawBytes ''a,b''\<rparr>] \<and>
   body_task_name (RawBytes ''a,b'') = None \<and>
   body_task_name (RawBytes ''a,b'') \<noteq> Some ''SciScript-Python.CasJobs.uploadCSVDataToTable''"
  by code_simp

text \<open>
  C6. \<open>executeQueryAsync\<close> on the list of the two queries \<open>select 1\<close> and \<open>select 2\<close>, against
  a server that answers each with its own row. With no format requested the caller gets
  the two per-query entries in the order of the queries. With a format requested the loop
  that gathers the rows indexes a task's output, which is a list of result sets, with the
  key \<open>Result\<close>: the call raises \<open>TypeError\<close> and returns no table.
\<close>

theorem combined_table_path_raises:
  "fst (executeQueryAsync demo_env (Queries [''select 1'', ''select 2'']) ''MyDB''
          PyNone state0) =
     Inr (Responses [JArr [JObj [(''Columns'', JArr [JStr ''a'']), (''Data'', JArr [JArr [JNum 1]])]],
                     JArr [JObj [(''Columns'', JArr [JStr ''a'']), (''Data'', JArr [JArr [JNum 2]])]]]) \<and>
   fst (executeQueryAsync demo_env (Queries [''select 1'', ''select 2'']) ''MyDB''
          (PyStr ''pandas'') state0) = Inl TypeError"
  by code_simp

text \<open>
  C1. \<open>waitForJob\<close> returns a status record only if its status is 3 (Canceled), 4 (Failed)
  or 5 (Finished). If the first \<open>n\<close> polls each give a record whose status is none of
  these (so also for 0, 1 and 2) and the next poll gives the record \<open>d\<close> with such a status,
  then the call has not returned within \<open>n\<close> polls, and allowed more polls it returns \<open>d\<close>
  having sent exactly \<open>n + 1\<close> status requests: the last one is the poll that gave \<open>d\<close>.
\<close>

theorem waitForJob_returns_at_first_terminal_status:
  "(waitForJob fuel env jobId verbose pollTime s = Some (Inr d', s') \<longrightarrow>
      (\<exists>st'. job_status env d' = Inr st' \<and> terminal st')) \<and>
   (getToken env = Some tok \<and> tok \<noteq> [] \<and>
    (\<forall>i<n. \<exists>st. polled_status env jobId tok (length (requests (trace s)) + i) = Inr st \<and>
                  \<not> terminal st) \<and>
    poll env jobId tok (length (requests (trace s)) + n) = Inr d \<and>
    job_status env d = Inr st \<and> terminal st \<longrightarrow>
      (fuel \<le> n \<longrightarrow> waitForJob fuel env jobId verbose pollTime s = None) \<and>
      (n < fuel \<longrightarrow>
         map_option fst (waitForJob fuel env jobId verbose pollTime s) = Some (Inr d) \<and>
         map_option (\<lambda>r. requests (trace (snd r))) (waitForJob fuel env jobId verbose pollTime s) =
           Some (requests (trace s) @ replicate (Suc n) (poll_request env jobId tok))))"
proof (intro conjI impI; (elim conjE)?)
  assume "waitForJob fuel env jobId verbose pollTime s = Some (Inr d', s')"
  then show "\<exists>st'. job_status env d' = Inr st' \<and> terminal st'"
    by (rule waitForJob_returns_terminal)
next
  assume h: "getToken env = Some tok" "tok \<noteq> []"
    "\<forall>i<n. \<exists>st. polled_status env jobId tok (length (requests (trace s)) + i) = Inr st \<and>
             \<not> terminal st"
    "poll env jobId tok (length (requests (trace s)) + n) = Inr d"
    "job_status env d = Inr st" "terminal st"
  {
    assume "fuel \<le> n"
    then show "waitForJob fuel env jobId verbose pollTime s = None"
      by (rule waitForJob_scenario(2) [OF h])
  }
  assume "n < fuel"
  note r = waitForJob_scenario(1) [OF h this, of verbose pollTime]
  show "map_option fst (waitForJob fuel env jobId verbose pollTime s) = Some (Inr d)"
    by (simp add: r)
  show "map_option (\<lambda>r. requests (trace (snd r))) (waitForJob fuel env jobId verbose pollTime s) =
          Some (requests (trace s) @ replicate (Suc n) (poll_request env jobId tok))"
    by (simp add: r requests_append requests_wait_events)
qed

theorem waitForJob_returns_at_first_terminal_status_witness:
  "polled_status demo_env (PyInt 7) ''secret'' 0 = Inr 1 \<and>
   polled_status demo_env (PyInt 7) ''secret'' 1 = Inr 1 \<and>
   poll demo_env (PyInt 7) ''secret'' 2 = Inr (JObj [(''Status'', JNum 5)]) \<and>
   waitForJob 2 demo_env (PyInt 7) False 1 state0 = None \<and>
   map_option fst (waitForJob 3 demo_env (PyInt 7) False 1 state0) =
     Some (Inr (JObj [(''Status'', JNum 5)])) \<and>
   map_option (\<lambda>r. requests (trace (snd r))) (waitForJob 3 demo_env (PyInt 7) False 1 state0) =
     Some (replicate 3
       \<lparr>req_method = GET,
        req_url = ''https://casjobs.example/RestApi/jobs/7?TaskName=SciScript-Python.CasJobs.getJobStatus'',
        req_headers = [(''X-Auth-Token'', ''secret''), (''Content-Type'', ''application/json'')],
        req_data = NoData\<rparr>)"
proof -
  have p: "polled_status demo_env (PyInt 7) ''secret'' 0 = Inr 1"
    "polled_status demo_env (PyInt 7) ''secret'' 1 = Inr 1"
    "poll demo_env (PyInt 7) ''secret'' 2 = Inr (JObj [(''Status'', JNum 5)])"
    "job_status demo_env (JObj [(''Status'', JNum 5)]) = Inr 5"
    "terminal 5" "\<not> terminal 1"
    by code_simp+
  have q: "poll_request demo_env (PyInt 7) ''secret'' =
       \<lparr>req_method = GET,
        req_url = ''https://casjobs.example/RestApi/jobs/7?TaskName=SciScript-Python.CasJobs.getJobStatus'',
        req_headers = [(''X-Auth-Token'', ''secret''), (''Content-Type'', ''application/json'')],
        req_data = NoData\<rparr>"
    by code_simp
  have h: "getToken demo_env = Some ''secret'' \<and> ''secret'' \<noteq> [] \<and>
    (\<forall>i<2. \<exists>st. polled_status demo_env (PyInt 7) ''secret'' (length (requests (trace state0)) + i) = Inr st \<and>
                  \<not> terminal st) \<and>
    poll demo_env (PyInt 7) ''secret'' (length (requests (trace state0)) + 2) =
      Inr (JObj [(''Status'', JNum 5)]) \<and>
    job_status demo_env (JObj [(''Status'', JNum 5)]) = Inr 5 \<and> terminal 5"
    using p by (simp add: state0_def demo_env_def less_Suc_eq numeral_2_eq_2)
  show ?thesis
    using p h
      waitForJob_returns_at_first_terminal_status
        [of 2 demo_env "PyInt 7" False 1 state0 "JNull" state0 "''secret''" 2
            "JObj [(''Status'', JNum 5)]" 5]
      waitForJob_returns_at_first_terminal_status
        [of 3 demo_env "PyInt 7" False 1 state0 "JNull" state0 "''secret''" 2
            "JObj [(''Status'', JNum 5)]" 5]
    by (simp add: q state0_def numeral_3_eq_3)
qed

text \<open>
  C2. Every sleep of \<open>waitForJob\<close> lasts \<open>max(pollTime, 5)\<close> seconds, whatever \<open>pollTime\<close> is and
  however the call ends. When the first \<open>n\<close> polls give a status that is not terminal and
  the next one gives a terminal status, the events of the call are, in order: \<open>n\<close> rounds
  of a status request followed by one sleep of \<open>max(pollTime, 5)\<close> seconds, then the last
  status request, with no sleep after it (a verbose call prints around them). So there
  are \<open>n\<close> sleeps, each between two consecutive polls.
\<close>

theorem waitForJob_sleeps_max_pollTime_5:
  "(waitForJob fuel env jobId verbose pollTime s = Some (r, s') \<longrightarrow>
      (\<exists>evs. trace s' = trace s @ evs \<and> set (sleeps evs) \<subseteq> {max pollTime 5})) \<and>
   (getToken env = Some tok \<and> tok \<noteq> [] \<and>
    (\<forall>i<n. \<exists>st. polled_status env jobId tok (length (requests (trace s)) + i) = Inr st \<and>
                  \<not> terminal st) \<and>
    poll env jobId tok (length (requests (trace s)) + n) = Inr d \<and>
    job_status env d = Inr st \<and> terminal st \<and> n < fuel \<longrightarrow>
      waitForJob fuel env jobId verbose pollTime s =
        Some (Inr d, s\<lparr>trace := trace s
           @ waiting verbose
           @ concat (replicate n (waiting verbose
                                  @ [Req (poll_request env jobId tok), Sleep (max pollTime 5)]))
           @ waiting verbose @ [Req (poll_request env jobId tok)]
           @ (if verbose then [Print (''Done!'' @ [CHR 0x0A])] else [])\<rparr>))"
proof (intro conjI impI; (elim conjE)?)
  assume "waitForJob fuel env jobId verbose pollTime s = Some (r, s')"
  then show "\<exists>evs. trace s' = trace s @ evs \<and> set (sleeps evs) \<subseteq> {max pollTime 5}"
    by (rule waitForJob_sleeps)
next
  assume h: "getToken env = Some tok" "tok \<noteq> []"
    "\<forall>i<n. \<exists>st. polled_status env jobId tok (length (requests (trace s)) + i) = Inr st \<and>
             \<not> terminal st"
    "poll env jobId tok (length (requests (trace s)) + n) = Inr d"
    "job_status env d = Inr st" "terminal st" and f: "n < fuel"
  show "waitForJob fuel env jobId verbose pollTime s =
        Some (Inr d, s\<lparr>trace := trace s
           @ waiting verbose
           @ concat (replicate n (waiting verbose
                                  @ [Req (poll_request env jobId tok), Sleep (max pollTime 5)]))
           @ waiting verbose @ [Req (poll_request env jobId tok)]
           @ (if verbose then [Print (''Done!'' @ [CHR 0x0A])] else [])\<rparr>)"
    using waitForJob_scenario(1) [OF h f, of verbose pollTime]
    by (simp add: wait_events_def)
qed

theorem waitForJob_sleeps_max_pollTime_5_witness:
  "waitForJob 3 demo_env (PyInt 7) False 1 state0 =
     Some (Inr (JObj [(''Status'', JNum 5)]),
           \<lparr>task = \<lparr>name = None\<rparr>,
            trace = [Req (poll_request demo_env (PyInt 7) ''secret''), Sleep 5,
                     Req (poll_request demo_env (PyInt 7) ''secret''), Sleep 5,
                     Req (poll_request demo_env (PyInt 7) ''secret'')]\<rparr>) \<and>
   waitForJob 3 demo_env (PyInt 7) True 60 state0 =
     Some (Inr (JObj [(''Status'', JNum 5)]),
           \<lparr>task = \<lparr>name = None\<rparr>,
            trace = [Print ''Waiting...'',
                     Print ''Waiting...'', Req (poll_request demo_env (PyInt 7) ''secret''), Sleep 60,
                     Print ''Waiting...'', Req (poll_request demo_env (PyInt 7) ''secret''), Sleep 60,
                     Print ''Waiting...'', Req (poll_request demo_env (PyInt 7) ''secret''),
                     Print (''Done!'' @ [CHR 0x0A])]\<rparr>)"
proof -
  have p: "polled_status demo_env (PyInt 7) ''secret'' 0 = Inr 1"
    "polled_status demo_env (PyInt 7) ''secret'' 1 = Inr 1"
    "poll demo_env (PyInt 7) ''secret'' 2 = Inr (JObj [(''Status'', JNum 5)])"
    "job_status demo_env (JObj [(''Status'', JNum 5)]) = Inr 5"
    "terminal 5" "\<not> terminal 1"
    by code_simp+
  have h: "getToken demo_env = Some ''secret'' \<and> ''secret'' \<noteq> [] \<and>
    (\<forall>i<2. \<exists>st. polled_status demo_env (PyInt 7) ''secret'' (length (requests (trace state0)) + i) = Inr st \<and>
                  \<not> terminal st) \<and>
    poll demo_env (PyInt 7) ''secret'' (length (requests (trace state0)) + 2) =
      Inr (JObj [(''Status'', JNum 5)]) \<and>
    job_status demo_env (JObj [(''Status'', JNum 5)]) = Inr 5 \<and> terminal 5 \<and> (2::nat) < 3"
    using p by (simp add: state0_def demo_env_def less_Suc_eq numeral_2_eq_2)
  show ?thesis
    using h
      waitForJob_sleeps_max_pollTime_5
        [of 3 demo_env "PyInt 7" False 1 state0 "Inl TypeError" state0 "''secret''" 2
            "JObj [(''Status'', JNum 5)]" 5]
      waitForJob_sleeps_max_pollTime_5
        [of 3 demo_env "PyInt 7" True 60 state0 "Inl TypeError" state0 "''secret''" 2
            "JObj [(''Status'', JNum 5)]" 5]
    by (simp add: state0_def numeral_2_eq_2 waiting_def waitingStr_def)
qed

text \<open>
  C5. Let \<open>c\<close> be a call of any public operation. If the token provider returns \<open>None\<close> or
  the empty string, the call raises the login error and has sent no request (for
  \<open>waitForJob\<close>: at its first poll). If the token is a non-empty string, a call that ends
  does not raise the login error, and every request it has sent carries the token in its
  \<open>X-Auth-Token\<close> header.
\<close>

theorem login_error_before_any_request:
  "((getToken env = None \<or> getToken env = Some []) \<and> 0 < fuel \<longrightarrow>
      map_option fst (call fuel env c s) = Some (Inl (ValueError EXCEPT_LOGIN_ERROR)) \<and>
      map_option (\<lambda>r. requests (trace (snd r))) (call fuel env c s) = Some (requests (trace s))) \<and>
   (getToken env = Some tok \<and> tok \<noteq> [] \<and> call fuel env c s = Some (r, s') \<longrightarrow>
      r \<noteq> Inl (ValueError EXCEPT_LOGIN_ERROR) \<and>
      (\<exists>rs. requests (trace s') = requests (trace s) @ rs \<and>
            list_all (\<lambda>q. map_of (req_headers q) CASJOBSCONST_X_AUTH_TOKEN = Some tok) rs))"
proof (intro conjI impI; (elim conjE)?)
  assume t: "getToken env = None \<or> getToken env = Some []" and f: "0 < fuel"
  note n = call_no_token [OF token_login_error [OF t] f, of c s]
  from n show "map_option fst (call fuel env c s) = Some (Inl (ValueError EXCEPT_LOGIN_ERROR))"
    by (simp add: login_error_def)
  from n show "map_option (\<lambda>r. requests (trace (snd r))) (call fuel env c s) =
                 Some (requests (trace s))"
    by simp
next
  assume t: "getToken env = Some tok" "tok \<noteq> []" and c: "call fuel env c s = Some (r, s')"
  note sf = call_safe [OF token_valid [OF t] c]
  from sf show "r \<noteq> Inl (ValueError EXCEPT_LOGIN_ERROR)"
    by (simp add: login_error_def)
  from sf obtain rs where rs: "requests (trace s') = requests (trace s) @ rs"
    "list_all (headers_ok tok) rs"
    by blast
  from rs(2) have "list_all (\<lambda>q. map_of (req_headers q) CASJOBSCONST_X_AUTH_TOKEN = Some tok) rs"
    by (simp add: list_all_iff headers_ok_token)
  with rs(1) show "\<exists>rs. requests (trace s') = requests (trace s) @ rs \<and>
            list_all (\<lambda>q. map_of (req_headers q) CASJOBSCONST_X_AUTH_TOKEN = Some tok) rs"
    by blast
qed

theorem login_error_before_any_request_witness:
  "map_option fst (call 1 (demo_env\<lparr>getToken := Some []\<rparr>) (WaitForJob (PyInt 7) False 5) state0) =
     Some (Inl (ValueError ''User token is not defined. First log into SciServer.'')) \<and>
   map_option (\<lambda>r. requests (trace (snd r)))
       (call 1 (demo_env\<lparr>getToken := Some []\<rparr>) (WaitForJob (PyInt 7) False 5) state0) = Some [] \<and>
   call 1 demo_env (CancelJob (PyInt 7)) state0 =
     Some (Inr (), \<lparr>task = \<lparr>name = None\<rparr>,
                    trace = [Req \<lparr>req_method = DELETE,
                                  req_url = ''https://casjobs.example/RestApi/jobs/7?TaskName=SciScript-Python.CasJobs.cancelJob'',
                                  req_headers = [(''X-Auth-Token'', ''secret''),
                                                 (''Content-Type'', ''application/json'')],
                                  req_data = NoData\<rparr>]\<rparr>) \<and>
   map_of [(''X-Auth-Token'', ''secret''), (''Content-Type'', ''application/json'')]
     CASJOBSCONST_X_AUTH_TOKEN = Some ''secret''"
proof -
  have c: "call 1 demo_env (CancelJob (PyInt 7)) state0 =
     Some (Inr (), \<lparr>task = \<lparr>name = None\<rparr>,
                    trace = [Req \<lparr>req_method = DELETE,
                                  req_url = ''https://casjobs.example/RestApi/jobs/7?TaskName=SciScript-Python.CasJobs.cancelJob'',
                                  req_headers = [(''X-Auth-Token'', ''secret''),
                                                 (''Content-Type'', ''application/json'')],
                                  req_data = NoData\<rparr>]\<rparr>)"
    by code_simp
  have h: "getToken (demo_env\<lparr>getToken := Some []\<rparr>) = Some []" "(0::nat) < 1"
    "getToken demo_env = Some ''secret''" "''secret'' \<noteq> []"
    by (simp_all add: demo_env_def)
  show ?thesis
    using c h
      login_error_before_any_request
        [of "demo_env\<lparr>getToken := Some []\<rparr>" 1 "WaitForJob (PyInt 7) False 5" state0
            "[]" "Inr ()" state0]
      login_error_before_any_request
        [of demo_env 1 "CancelJob (PyInt 7)" state0 "''secret''" "Inr ()"
            "\<lparr>task = \<lparr>name = None\<rparr>,
              trace = [Req \<lparr>req_method = DELETE,
                            req_url = ''https://casjobs.example/RestApi/jobs/7?TaskName=SciScript-Python.CasJobs.cancelJob'',
                            req_headers = [(''X-Auth-Token'', ''secret''),
                                           (''Content-Type'', ''application/json'')],
                            req_data = NoData\<rparr>]\<rparr>"]
    by (simp add: state0_def EXCEPT_LOGIN_ERROR_def)
qed

text \<open>
  C9. Of the headers the module passes with its requests. Every request a call of a public
  operation sends is passed the token in \<open>X-Auth-Token\<close>. Every request but the POST of
  \<open>uploadCSVDataToTable\<close> is passed the content type \<open>application/json\<close>, a plain GET too;
  the POST of \<open>uploadCSVDataToTable\<close> is passed the token alone. The PUT is passed the
  accept type of text. The POST of \<open>executeQuery\<close> is passed the accept type the dispatch
  table gives for the requested format when a format is given; every POST that
  \<open>executeQueryAsync\<close> sends is passed the accept type of \<open>json\<close>.
\<close>

theorem request_headers_by_method_and_body:
  "(getToken env = Some tok \<and> tok \<noteq> [] \<and> call fuel env c s = Some (r, s') \<longrightarrow>
      (\<exists>rs. requests (trace s') = requests (trace s) @ rs \<and> list_all (headers_ok tok) rs)) \<and>
   (getToken env = Some tok \<and> tok \<noteq> [] \<and> get_headers tok fmt = Inr hs \<longrightarrow>
      trace (snd (executeQuery env sql ctx fmt s)) =
        trace s @ [Req \<lparr>req_method = POST,
                        req_url = query_url env ctx
                          (case name (task s) of Some n \<Rightarrow> n
                           | None \<Rightarrow> get_taskname env TASKNAMES_EXECUTEQUERY),
                        req_headers = hs,
                        req_data = format_data sql
                          (case name (task s) of Some n \<Rightarrow> n
                           | None \<Rightarrow> get_taskname env TASKNAMES_EXECUTEQUERY)\<rparr>] \<and>
      hs = base_headers tok
             @ (if fmt = PyNone then []
                else case format_to_accept_header fmt of
                       Inr a \<Rightarrow> [(CASJOBSCONST_ACCEPT, a)] | Inl e \<Rightarrow> [])) \<and>
   (getToken env = Some tok \<and> tok \<noteq> [] \<longrightarrow>
      (\<exists>rs. requests (trace (snd (executeQueryAsync env qs ctx fmt s))) = requests (trace s) @ rs \<and>
            list_all (\<lambda>q. req_method q = POST \<and>
                           req_headers q = base_headers tok
                             @ [(CASJOBSCONST_ACCEPT, ''application/json+array'')]) rs)) \<and>
   (headers_ok tok q \<longrightarrow>
      map_of (req_headers q) CASJOBSCONST_X_AUTH_TOKEN = Some tok \<and>
      (req_method q = POST \<and> (\<exists>b. req_data q = RawBytes b)
         \<or> map_of (req_headers q) CASJOBSCONST_CONTENT_TYPE = Some CASJOBSCONST_CONTENT_JSON))"
proof (intro conjI impI; (elim conjE)?)
  assume t: "getToken env = Some tok" "tok \<noteq> []" and c: "call fuel env c s = Some (r, s')"
  from call_safe [OF token_valid [OF t] c]
  show "\<exists>rs. requests (trace s') = requests (trace s) @ rs \<and> list_all (headers_ok tok) rs"
    by blast
next
  assume t: "getToken env = Some tok" "tok \<noteq> []" and h: "get_headers tok fmt = Inr hs"
  show "trace (snd (executeQuery env sql ctx fmt s)) =
        trace s @ [Req \<lparr>req_method = POST,
                        req_url = query_url env ctx
                          (case name (task s) of Some n \<Rightarrow> n
                           | None \<Rightarrow> get_taskname env TASKNAMES_EXECUTEQUERY),
                        req_headers = hs,
                        req_data = format_data sql
                          (case name (task s) of Some n \<Rightarrow> n
                           | None \<Rightarrow> get_taskname env TASKNAMES_EXECUTEQUERY)\<rparr>]"
    by (rule executeQuery_trace [OF t h])
  from h show "hs = base_headers tok
             @ (if fmt = PyNone then []
                else case format_to_accept_header fmt of
                       Inr a \<Rightarrow> [(CASJOBSCONST_ACCEPT, a)] | Inl e \<Rightarrow> [])"
    by (auto simp: get_headers_eq split: if_splits sum.splits)
next
  assume t: "getToken env = Some tok" "tok \<noteq> []"
  show "\<exists>rs. requests (trace (snd (executeQueryAsync env qs ctx fmt s))) = requests (trace s) @ rs \<and>
            list_all (\<lambda>q. req_method q = POST \<and>
                           req_headers q = base_headers tok
                             @ [(CASJOBSCONST_ACCEPT, ''application/json+array'')]) rs"
    by (rule executeQueryAsync_request_headers [OF t])
next
  assume "headers_ok tok q"
  then show "map_of (req_headers q) CASJOBSCONST_X_AUTH_TOKEN = Some tok"
    by (rule headers_ok_token)
next
  assume "headers_ok tok q"
  then show "req_method q = POST \<and> (\<exists>b. req_data q = RawBytes b)
         \<or> map_of (req_headers q) CASJOBSCONST_CONTENT_TYPE = Some CASJOBSCONST_CONTENT_JSON"
    by (rule headers_ok_content_type)
qed

theorem request_headers_by_method_and_body_witness:
  "call 1 demo_env (GetTables ''MyDB'') state0 =
     Some (Inr (), \<lparr>task = \<lparr>name = None\<rparr>,
                    trace = [Req \<lparr>req_method = GET,
                                  req_url = ''https://casjobs.example/RestApi/contexts/MyDB/Tables?TaskName=SciScript-Python.CasJobs.getTables'',
                                  req_headers = [(''X-Auth-Token'', ''secret''),
                                                 (''Content-Type'', ''application/json'')],
                                  req_data = NoData\<rparr>]\<rparr>) \<and>
   headers_ok ''secret''
     \<lparr>req_method = GET,
      req_url = ''https://casjobs.example/RestApi/contexts/MyDB/Tables?TaskName=SciScript-Python.CasJobs.getTables'',
      req_headers = [(''X-Auth-Token'', ''secret''), (''Content-Type'', ''application/json'')],
      req_data = NoData\<rparr> \<and>
   trace (snd (executeQuery demo_env ''select 1'' ''MyDB'' (PyStr ''fits'') state0)) =
     [Req \<lparr>req_method = POST,
           req_url = ''https://casjobs.example/RestApi/contexts/MyDB/query?TaskName=SciScript-Python.CasJobs.SciScript-Python.CasJobs.executeQuery'',
           req_headers = [(''X-Auth-Token'', ''secret''), (''Content-Type'', ''application/json''),
                          (''Accept'', ''application/fits'')],
           req_data = Dumps [(''Query'', ''select 1''),
                             (''TaskName'', ''SciScript-Python.CasJobs.executeQuery'')]\<rparr>] \<and>
   list_all (\<lambda>q. req_method q = POST \<and>
                   req_headers q = [(''X-Auth-Token'', ''secret''), (''Content-Type'', ''application/json''),
                                    (''Accept'', ''application/json+array'')])
     (requests (trace (snd (executeQueryAsync demo_env (Queries [''select 1'', ''select 2''])
                              ''MyDB'' (PyStr ''fits'') state0))))"
proof -
  have c: "call 1 demo_env (GetTables ''MyDB'') state0 =
     Some (Inr (), \<lparr>task = \<lparr>name = None\<rparr>,
                    trace = [Req \<lparr>req_method = GET,
                                  req_url = ''https://casjobs.example/RestApi/contexts/MyDB/Tables?TaskName=SciScript-Python.CasJobs.getTables'',
                                  req_headers = [(''X-Auth-Token'', ''secret''),
                                                 (''Content-Type'', ''application/json'')],
                                  req_data = NoData\<rparr>]\<rparr>)"
    by code_simp
  have h: "getToken demo_env = Some ''secret''" "''secret'' \<noteq> []"
    "get_headers ''secret'' (PyStr ''fits'') =
       Inr [(''X-Auth-Token'', ''secret''), (''Content-Type'', ''application/json''),
            (''Accept'', ''application/fits'')]"
    by code_simp+
  have u: "query_url demo_env ''MyDB'' (get_taskname demo_env TASKNAMES_EXECUTEQUERY) =
              ''https://casjobs.example/RestApi/contexts/MyDB/query?TaskName=SciScript-Python.CasJobs.SciScript-Python.CasJobs.executeQuery''"
    "format_data ''select 1'' (get_taskname demo_env TASKNAMES_EXECUTEQUERY) =
       Dumps [(''Query'', ''select 1''), (''TaskName'', ''SciScript-Python.CasJobs.executeQuery'')]"
    by code_simp+
  have b: "base_headers ''secret'' @ [(CASJOBSCONST_ACCEPT, ''application/json+array'')] =
      [(''X-Auth-Token'', ''secret''), (''Content-Type'', ''application/json''),
                                    (''Accept'', ''application/json+array'')]"
    by code_simp
  show ?thesis
    using c h
      request_headers_by_method_and_body
        [of demo_env "''secret''" 1 "GetTables ''MyDB''" state0 "Inr ()"
            "\<lparr>task = \<lparr>name = None\<rparr>,
              trace = [Req \<lparr>req_method = GET,
                            req_url = ''https://casjobs.example/RestApi/contexts/MyDB/Tables?TaskName=SciScript-Python.CasJobs.getTables'',
                            req_headers = [(''X-Auth-Token'', ''secret''),
                                           (''Content-Type'', ''application/json'')],
                            req_data = NoData\<rparr>]\<rparr>"
            "PyStr ''fits''"
            "[(''X-Auth-Token'', ''secret''), (''Content-Type'', ''application/json''),
              (''Accept'', ''application/fits'')]"
            "''select 1''" "''MyDB''" "Queries [''select 1'', ''select 2'']"
            "\<lparr>req_method = GET,
              req_url = ''https://casjobs.example/RestApi/contexts/MyDB/Tables?TaskName=SciScript-Python.CasJobs.getTables'',
              req_headers = [(''X-Auth-Token'', ''secret''),
                             (''Content-Type'', ''application/json'')],
              req_data = NoData\<rparr>"]
    by (simp add: state0_def u b)
qed

theorem get_with_content_type_upload_without_counterexample:
  "requests (trace (snd (getTables demo_env ''MyDB'' state0))) =
     [\<lparr>req_method = GET,
       req_url = ''https://casjobs.example/RestApi/contexts/MyDB/Tables?TaskName=SciScript-Python.CasJobs.getTables'',
       req_headers = [(''X-Auth-Token'', ''secret''), (''Content-Type'', ''application/json'')],
       req_data = NoData\<rparr>] \<and>
   map_of [(''X-Auth-Token'', ''secret''), (''Content-Type'', ''application/json'')] ''Content-Type''
     = Some ''application/json'' \<and>
   requests (trace (snd (uploadCSVDataToTable demo_env ''a,b'' ''MyTable'' ''MyDB'' state0))) =
     [\<lparr>req_method = POST,
       req_url = ''https://casjobs.example/RestApi/contexts/MyDB/query?TaskName=SciScript-Python.CasJobs.SciScript-Python.CasJobs.uploadCSVDataToTable'',
       req_headers = [(''X-Auth-Token'', ''secret'')],
       req_data = RawBytes ''a,b''\<rparr>] \<and>
   map_of [(''X-Auth-Token'', ''secret'')] ''Content-Type'' = None \<and>
   map_of [(''X-Auth-Token'', ''secret'')] ''Accept'' = None \<and>
   requests (trace (snd (executeQuery demo_env ''select 1'' ''MyDB'' PyNone state0))) =
     [\<lparr>req_method = POST,
       req_url = ''https://casjobs.example/RestApi/contexts/MyDB/query?TaskName=SciScript-Python.CasJobs.SciScript-Python.CasJobs.executeQuery'',
       req_headers = [(''X-Auth-Token'', ''secret''), (''Content-Type'', ''application/json'')],
       req_data = Dumps [(''Query'', ''select 1''),
                         (''TaskName'', ''SciScript-Python.CasJobs.executeQuery'')]\<rparr>] \<and>
   map_of [(''X-Auth-Token'', ''secret''), (''Content-Type'', ''application/json'')] ''Accept''
     = None"
  by code_simp

end
